theory Spec2Isabelle
  imports Main
begin

section \<open>Values exchanged with the outside\<close>

text \<open>
  JSON values as Go's \<open>encoding/json\<close> hands them to the service in an \<open>interface{}\<close>:
  \<open>JNull\<close> is the nil interface, \<open>JNum\<close> a whole number (the numeric dates the
  service writes are whole seconds; fractions are left out), \<open>JStr\<close> a Go string (a
  byte sequence).
\<close>

datatype json =
    JNull
  | JBool bool
  | JNum int
  | JStr string
  | JArr "json list"
  | JObj "(string \<times> json) list"

text \<open>Decoding a JSON object into a Go map: of two equal keys the later one stays.\<close>

definition to_map :: "(string \<times> json) list \<Rightarrow> string \<Rightarrow> json option" where
  "to_map kvs = map_of (rev kvs)"

text \<open>
  Indexing a \<open>map[string]interface{}\<close>: a missing key gives the nil interface, as a
  stored JSON null does.
\<close>

definition index_map :: "(string \<times> json) list \<Rightarrow> string \<Rightarrow> json" where
  "index_map kvs k = (case to_map kvs k of None \<Rightarrow> JNull | Some v \<Rightarrow> v)"

text \<open>
  What \<open>json.Unmarshal\<close> into a map accepts: an object, or null (the map stays nil and
  reads as empty).
\<close>

fun as_object :: "json \<Rightarrow> (string \<times> json) list option" where
  "as_object (JObj kvs) = Some kvs"
| "as_object JNull = Some []"
| "as_object _ = None"

subsection \<open>Time\<close>

text \<open>
  A \<open>time.Time\<close> is its number of nanoseconds since the Unix epoch; a \<open>time.Duration\<close>
  is a number of nanoseconds. \<open>Unix\<close> is the whole number of seconds.
\<close>

type_synonym time = int

definition Second :: int where
  "Second = 1000000000"

definition Minute :: int where
  "Minute = 60 * Second"

definition Hour :: int where
  "Hour = 60 * Minute"

definition Unix :: "time \<Rightarrow> int" where
  "Unix t = t div Second"

definition Add :: "time \<Rightarrow> int \<Rightarrow> time" where
  "Add t d = t + d"

text \<open>\<open>time.Unix(sec, 0)\<close>: the instant a numeric date of whole seconds denotes.\<close>

definition time_of_seconds :: "int \<Rightarrow> time" where
  "time_of_seconds s = s * Second"

definition Before :: "time \<Rightarrow> time \<Rightarrow> bool" where
  "Before t u = (t < u)"

section \<open>The libraries the service calls\<close>

text \<open>
  Errors of request binding (\<open>c.ShouldBindJSON\<close>): the body is not JSON, a field has
  the wrong JSON type, or the listed (field, tag) validations failed.
\<close>

datatype bind_error =
    SyntaxError
  | UnmarshalTypeError string
  | ValidationErrors "(string \<times> string) list"

text \<open>
  The primitives of the libraries that the service only calls are parameters of the
  model: the keyed hash behind the HS family (hash name, key, message), the base64url
  segment codec and the JSON codec of the token library, bcrypt (its random salt made an
  argument; \<open>None\<close> is an error return), the validator's email test, the rendering of a
  binding error's message and of a time stamp.
\<close>

record libs =
  hmac_sum :: "string \<Rightarrow> string \<Rightarrow> string \<Rightarrow> string"
  EncodeSegment :: "string \<Rightarrow> string"
  DecodeSegment :: "string \<Rightarrow> string option"
  json_Marshal :: "json \<Rightarrow> string"
  json_Unmarshal :: "string \<Rightarrow> json option"
  GenerateFromPassword :: "string \<Rightarrow> string \<Rightarrow> string option"
  CompareHashAndPassword :: "string \<Rightarrow> string \<Rightarrow> bool"
  is_email :: "string \<Rightarrow> bool"
  error_text :: "bind_error \<Rightarrow> string"
  time_text :: "time \<Rightarrow> string"

subsection \<open>The token library (golang-jwt, version 5)\<close>

text \<open>
  The signing methods the library registers. The RSA, RSA-PSS, ECDSA and EdDSA methods
  are one constructor: each of them needs a key of its own type.
\<close>

datatype signing_method =
    SigningMethodHS256
  | SigningMethodHS384
  | SigningMethodHS512
  | SigningMethodAsymmetric string
  | SigningMethodNone

definition asymmetric_algs :: "string list" where
  "asymmetric_algs =
     [''RS256'', ''RS384'', ''RS512'', ''PS256'', ''PS384'', ''PS512'',
      ''ES256'', ''ES384'', ''ES512'', ''EdDSA'']"

definition GetSigningMethod :: "string \<Rightarrow> signing_method option" where
  "GetSigningMethod alg =
     (if alg = ''HS256'' then Some SigningMethodHS256
      else if alg = ''HS384'' then Some SigningMethodHS384
      else if alg = ''HS512'' then Some SigningMethodHS512
      else if alg \<in> set asymmetric_algs then Some (SigningMethodAsymmetric alg)
      else if alg = ''none'' then Some SigningMethodNone
      else None)"

fun Alg :: "signing_method \<Rightarrow> string" where
  "Alg SigningMethodHS256 = ''HS256''"
| "Alg SigningMethodHS384 = ''HS384''"
| "Alg SigningMethodHS512 = ''HS512''"
| "Alg (SigningMethodAsymmetric a) = a"
| "Alg SigningMethodNone = ''none''"

text \<open>
  The keys a key function can hand back: a byte slice, or the constant that alone
  unlocks the unsigned method.
\<close>

datatype key = KeyBytes string | UnsafeAllowNoneSignatureType

text \<open>
  \<open>Verify\<close> of each method (\<open>True\<close> is the nil error). The HS methods take a byte
  slice and compare the signature with the keyed hash of the signing string; the
  asymmetric methods refuse both kinds of key; the unsigned method needs its constant
  and an empty signature.
\<close>

fun Verify :: "libs \<Rightarrow> signing_method \<Rightarrow> string \<Rightarrow> string \<Rightarrow> key \<Rightarrow> bool" where
  "Verify L SigningMethodHS256 text sig (KeyBytes k) = (sig = hmac_sum L ''SHA256'' k text)"
| "Verify L SigningMethodHS384 text sig (KeyBytes k) = (sig = hmac_sum L ''SHA384'' k text)"
| "Verify L SigningMethodHS512 text sig (KeyBytes k) = (sig = hmac_sum L ''SHA512'' k text)"
| "Verify L SigningMethodNone text sig UnsafeAllowNoneSignatureType = (sig = [])"
| "Verify L _ text sig _ = False"

text \<open>\<open>Sign\<close> of each method; \<open>None\<close> is an error return.\<close>

fun Sign :: "libs \<Rightarrow> signing_method \<Rightarrow> string \<Rightarrow> key \<Rightarrow> string option" where
  "Sign L SigningMethodHS256 text (KeyBytes k) = Some (hmac_sum L ''SHA256'' k text)"
| "Sign L SigningMethodHS384 text (KeyBytes k) = Some (hmac_sum L ''SHA384'' k text)"
| "Sign L SigningMethodHS512 text (KeyBytes k) = Some (hmac_sum L ''SHA512'' k text)"
| "Sign L SigningMethodNone text UnsafeAllowNoneSignatureType = Some []"
| "Sign L _ text _ = None"

text \<open>\<open>strings.Split(s, ".")\<close>: the pieces between the dots, one piece for no dot.\<close>

fun split_dot :: "string \<Rightarrow> string list" where
  "split_dot [] = [[]]"
| "split_dot (c # cs) =
     (if c = CHR ''.'' then [] # split_dot cs
      else (case split_dot cs of p # ps \<Rightarrow> (c # p) # ps | [] \<Rightarrow> [[c]]))"

text \<open>One JSON segment of a token: base64url, then JSON, then into a map.\<close>

definition decode_object :: "libs \<Rightarrow> string \<Rightarrow> (string \<times> json) list option" where
  "decode_object L seg =
     (case DecodeSegment L seg of
        None \<Rightarrow> None
      | Some bytes \<Rightarrow>
          (case json_Unmarshal L bytes of
             None \<Rightarrow> None
           | Some j \<Rightarrow> as_object j))"

definition encode_object :: "libs \<Rightarrow> (string \<times> json) list \<Rightarrow> string" where
  "encode_object L kvs = EncodeSegment L (json_Marshal L (JObj kvs))"

text \<open>
  A token under construction (\<open>jwt.NewWithClaims\<close>) and a parsed one: the header, the
  claims (\<open>jwt.MapClaims\<close>) and the method.
\<close>

record token =
  Header :: "(string \<times> json) list"
  Claims :: "(string \<times> json) list"
  Method :: signing_method

definition NewWithClaims :: "signing_method \<Rightarrow> (string \<times> json) list \<Rightarrow> token" where
  "NewWithClaims m cl =
     \<lparr>Header = [(''typ'', JStr ''JWT''), (''alg'', JStr (Alg m))], Claims = cl, Method = m\<rparr>"

definition SigningString :: "libs \<Rightarrow> token \<Rightarrow> string" where
  "SigningString L t = encode_object L (Header t) @ ''.'' @ encode_object L (Claims t)"

definition SignedString :: "libs \<Rightarrow> token \<Rightarrow> key \<Rightarrow> string option" where
  "SignedString L t k =
     (case Sign L (Method t) (SigningString L t) k of
        None \<Rightarrow> None
      | Some sig \<Rightarrow> Some (SigningString L t @ ''.'' @ EncodeSegment L sig))"

datatype claim_error = TokenExpired | TokenNotValidYet | InvalidType

datatype jwt_error =
    TokenMalformed
  | TokenUnverifiable
  | TokenSignatureInvalid
  | TokenInvalidClaims "claim_error list"

text \<open>
  \<open>MapClaims.parseNumericDate\<close>: a missing key and the number 0 both read as "no date";
  a number is a date; any other value is a type error. The library takes the number as
  a \<open>float64\<close> and its whole part as \<open>int64\<close> seconds; on whole numbers of magnitude
  up to \<open>2\<^sup>5\<^sup>3\<close>, which both types hold exactly, the date is the number itself, and
  this is the reading given here to every \<open>JNum\<close>.
\<close>

definition parseNumericDate :: "(string \<times> json) list \<Rightarrow> string \<Rightarrow> claim_error + time option" where
  "parseNumericDate cl k =
     (case to_map cl k of
        None \<Rightarrow> Inr None
      | Some (JNum n) \<Rightarrow> (if n = 0 then Inr None else Inr (Some (time_of_seconds n)))
      | Some _ \<Rightarrow> Inl InvalidType)"

text \<open>
  The validator with no options: the expiry is optional and checked with
  \<open>now.Before(exp)\<close>; not-before is optional and checked with \<open>!now.Before(nbf)\<close>;
  issued-at, audience, issuer and subject are not checked.
\<close>

definition verifyExpiresAt :: "(string \<times> json) list \<Rightarrow> time \<Rightarrow> claim_error list" where
  "verifyExpiresAt cl now =
     (case parseNumericDate cl ''exp'' of
        Inl e \<Rightarrow> [e]
      | Inr None \<Rightarrow> []
      | Inr (Some exp) \<Rightarrow> (if Before now exp then [] else [TokenExpired]))"

definition verifyNotBefore :: "(string \<times> json) list \<Rightarrow> time \<Rightarrow> claim_error list" where
  "verifyNotBefore cl now =
     (case parseNumericDate cl ''nbf'' of
        Inl e \<Rightarrow> [e]
      | Inr None \<Rightarrow> []
      | Inr (Some nbf) \<Rightarrow> (if \<not> Before now nbf then [] else [TokenNotValidYet]))"

definition Validate :: "(string \<times> json) list \<Rightarrow> time \<Rightarrow> claim_error list" where
  "Validate cl now = verifyExpiresAt cl now @ verifyNotBefore cl now"

text \<open>
  \<open>jwt.Parse(tokenString, keyFunc)\<close> with no parser option, at time \<open>now\<close>: three
  segments, header and claims decoded, the method looked up from the header's \<open>alg\<close>,
  the signature decoded, the key asked from \<open>keyFunc\<close>, the signature verified by the
  method the header named, the claims validated. \<open>Inr\<close> is a token with \<open>Valid\<close> set
  and a nil error.
\<close>

definition Parse :: "libs \<Rightarrow> (token \<Rightarrow> string + key) \<Rightarrow> time \<Rightarrow> string \<Rightarrow> jwt_error + token" where
  "Parse L keyFunc now tokenString =
     (case split_dot tokenString of
        [p0, p1, p2] \<Rightarrow>
          (case decode_object L p0 of
             None \<Rightarrow> Inl TokenMalformed
           | Some header \<Rightarrow>
               (case decode_object L p1 of
                  None \<Rightarrow> Inl TokenMalformed
                | Some claims \<Rightarrow>
                    (case index_map header ''alg'' of
                       JStr alg \<Rightarrow>
                         (case GetSigningMethod alg of
                            None \<Rightarrow> Inl TokenUnverifiable
                          | Some m \<Rightarrow>
                              (let t = \<lparr>Header = header, Claims = claims, Method = m\<rparr> in
                               case DecodeSegment L p2 of
                                 None \<Rightarrow> Inl TokenMalformed
                               | Some sig \<Rightarrow>
                                   (case keyFunc t of
                                      Inl e \<Rightarrow> Inl TokenUnverifiable
                                    | Inr k \<Rightarrow>
                                        if \<not> Verify L m (p0 @ ''.'' @ p1) sig k
                                        then Inl TokenSignatureInvalid
                                        else (case Validate claims now of
                                                [] \<Rightarrow> Inr t
                                              | errs \<Rightarrow> Inl (TokenInvalidClaims errs)))))
                     | _ \<Rightarrow> Inl TokenUnverifiable)))
      | _ \<Rightarrow> Inl TokenMalformed)"

section \<open>The user-auth service\<close>

text \<open>
  A handler either writes a response (status and JSON body) or panics. \<open>gin.H\<close> and the
  response structs are JSON objects.
\<close>

datatype panic = SliceBoundsOutOfRange | InterfaceConversion string

type_synonym response = "nat \<times> json"

definition StatusOK :: nat where "StatusOK = 200"
definition StatusCreated :: nat where "StatusCreated = 201"
definition StatusBadRequest :: nat where "StatusBadRequest = 400"
definition StatusUnauthorized :: nat where "StatusUnauthorized = 401"
definition StatusNotFound :: nat where "StatusNotFound = 404"
definition StatusConflict :: nat where "StatusConflict = 409"
definition StatusInternalServerError :: nat where "StatusInternalServerError = 500"

definition H :: "(string \<times> json) list \<Rightarrow> json" where
  "H kvs = JObj kvs"

text \<open>The type assertion \<open>v.(string)\<close>: anything but a string panics.\<close>

fun assert_string :: "json \<Rightarrow> panic + string" where
  "assert_string (JStr s) = Inr s"
| "assert_string _ = Inl (InterfaceConversion ''string'')"

text \<open>
  \<open>s[7:]\<close> on a Go string: a panic when the string has fewer than 7 bytes.
\<close>

definition slice_from :: "nat \<Rightarrow> string \<Rightarrow> panic + string" where
  "slice_from n s = (if length s < n then Inl SliceBoundsOutOfRange else Inr (drop n s))"

text \<open>
  The key function both handlers pass to \<open>jwt.Parse\<close>: the secret, whatever the token.
\<close>

definition keyFunc :: "string \<Rightarrow> token \<Rightarrow> string + key" where
  "keyFunc jwtSecret t = Inr (KeyBytes jwtSecret)"

text \<open>
  \<open>generateTokens\<close> reads the clock four times: for the access expiry, the refresh
  expiry, and the issued-at of each token. The errors of \<open>SignedString\<close> are dropped,
  leaving the empty string.
\<close>

definition string_or_empty :: "string option \<Rightarrow> string" where
  "string_or_empty r = (case r of None \<Rightarrow> [] | Some s \<Rightarrow> s)"

text \<open>The claims literal both tokens are built from.\<close>

definition MapClaims :: "string \<Rightarrow> string \<Rightarrow> string \<Rightarrow> int \<Rightarrow> int \<Rightarrow> (string \<times> json) list" where
  "MapClaims sub email role exp iat =
     [(''sub'', JStr sub), (''email'', JStr email), (''role'', JStr role),
      (''exp'', JNum exp), (''iat'', JNum iat)]"

definition generateTokens ::
  "libs \<Rightarrow> string \<Rightarrow> time \<times> time \<times> time \<times> time \<Rightarrow> string \<Rightarrow> string \<Rightarrow> string
     \<Rightarrow> string \<times> string \<times> int" where
  "generateTokens L jwtSecret clock userID email role =
     (case clock of (t1, t2, t3, t4) \<Rightarrow>
        let accessTokenExpiry = Add t1 (15 * Minute);
            refreshTokenExpiry = Add t2 (7 * 24 * Hour);
            accessToken = NewWithClaims SigningMethodHS256
              (MapClaims userID email role (Unix accessTokenExpiry) (Unix t3));
            accessTokenString =
              string_or_empty (SignedString L accessToken (KeyBytes jwtSecret));
            refreshToken = NewWithClaims SigningMethodHS256
              (MapClaims userID email role (Unix refreshTokenExpiry) (Unix t4));
            refreshTokenString =
              string_or_empty (SignedString L refreshToken (KeyBytes jwtSecret))
        in (accessTokenString, refreshTokenString, Unix accessTokenExpiry))"

definition TokenResponse :: "string \<times> string \<times> int \<Rightarrow> json" where
  "TokenResponse r =
     (case r of (accessToken, refreshToken, expiresIn) \<Rightarrow>
        JObj [(''access_token'', JStr accessToken), (''refresh_token'', JStr refreshToken),
              (''expires_in'', JNum expiresIn)])"

subsection \<open>Request binding\<close>

text \<open>
  A request body is the JSON value the decoder reads, or \<open>None\<close> when there is none.
  \<open>encoding/json\<close> matches a member's key to a struct field by the field's \<open>json\<close>
  name without regard to case. For the names of this service (lower-case ASCII) a key
  matches when it is the name with ASCII letters in either case, the long s (U+017F,
  bytes C5 BF) allowed for s and the Kelvin sign (U+212A, bytes E2 84 AA) for k.
\<close>

definition ascii_lower :: "char \<Rightarrow> char" where
  "ascii_lower c =
     (if 65 \<le> (of_char c :: nat) \<and> (of_char c :: nat) \<le> 90
      then char_of ((of_char c :: nat) + 32) else c)"

fun fold_key :: "string \<Rightarrow> string" where
  "fold_key (a # b # c # r) =
     (if a = CHR 0xE2 \<and> b = CHR 0x84 \<and> c = CHR 0xAA then CHR ''k'' # fold_key r
      else if a = CHR 0xC5 \<and> b = CHR 0xBF then CHR ''s'' # fold_key (c # r)
      else ascii_lower a # fold_key (b # c # r))"
| "fold_key [a, b] =
     (if a = CHR 0xC5 \<and> b = CHR 0xBF then ''s'' else ascii_lower a # fold_key [b])"
| "fold_key [a] = [ascii_lower a]"
| "fold_key [] = []"

text \<open>
  The members of the object are read in order. A member whose key matches a string
  field sets it: a string stores its value, null leaves the field as it is, any other
  value leaves the field and records a type error. Decoding goes on to the end, and the
  first error recorded is the one returned.
\<close>

fun string_or_null :: "json \<Rightarrow> bool" where
  "string_or_null (JStr s) = True"
| "string_or_null JNull = True"
| "string_or_null _ = False"

definition set_string :: "string \<Rightarrow> json \<Rightarrow> string" where
  "set_string field v = (case v of JStr s \<Rightarrow> s | _ \<Rightarrow> field)"

definition unmarshal_string :: "(string \<times> json) list \<Rightarrow> string \<Rightarrow> string" where
  "unmarshal_string obj name =
     foldl set_string [] (map snd (filter (\<lambda>kv. fold_key (fst kv) = name) obj))"

definition unmarshal_error :: "string list \<Rightarrow> (string \<times> json) list \<Rightarrow> bind_error option" where
  "unmarshal_error names obj =
     (case find (\<lambda>kv. fold_key (fst kv) \<in> set names \<and> \<not> string_or_null (snd kv)) obj of
        None \<Rightarrow> None
      | Some kv \<Rightarrow> Some (UnmarshalTypeError (fold_key (fst kv))))"

definition body_object :: "json option \<Rightarrow> bind_error + (string \<times> json) list" where
  "body_object body =
     (case body of
        None \<Rightarrow> Inl SyntaxError
      | Some j \<Rightarrow>
          (case as_object j of
             None \<Rightarrow> Inl (UnmarshalTypeError [])
           | Some obj \<Rightarrow> Inr obj))"

text \<open>
  The refresh request: \<open>refresh_token\<close>, required.
\<close>

definition bind_refresh :: "json option \<Rightarrow> bind_error + string" where
  "bind_refresh body =
     (case body_object body of
        Inl e \<Rightarrow> Inl e
      | Inr obj \<Rightarrow>
          (case unmarshal_error [''refresh_token''] obj of
             Some e \<Rightarrow> Inl e
           | None \<Rightarrow>
               if unmarshal_string obj ''refresh_token'' = []
               then Inl (ValidationErrors [(''RefreshToken'', ''required'')])
               else Inr (unmarshal_string obj ''refresh_token'')))"

subsection \<open>refreshToken\<close>

definition refreshToken ::
  "libs \<Rightarrow> string \<Rightarrow> time \<Rightarrow> time \<times> time \<times> time \<times> time \<Rightarrow> json option \<Rightarrow> panic + response" where
  "refreshToken L jwtSecret now clock body =
     (case bind_refresh body of
        Inl err \<Rightarrow> Inr (StatusBadRequest, H [(''error'', JStr (error_text L err))])
      | Inr req_RefreshToken \<Rightarrow>
          (case Parse L (keyFunc jwtSecret) now req_RefreshToken of
             Inl err \<Rightarrow> Inr (StatusUnauthorized, H [(''error'', JStr ''Invalid refresh token'')])
           | Inr tok \<Rightarrow>
               (let claims = Claims tok in
                case assert_string (index_map claims ''sub'') of
                  Inl p \<Rightarrow> Inl p
                | Inr userID \<Rightarrow>
                    (case assert_string (index_map claims ''email'') of
                       Inl p \<Rightarrow> Inl p
                     | Inr email \<Rightarrow>
                         (case assert_string (index_map claims ''role'') of
                            Inl p \<Rightarrow> Inl p
                          | Inr role \<Rightarrow>
                              Inr (StatusOK,
                                   TokenResponse
                                     (generateTokens L jwtSecret clock userID email role)))))))"

subsection \<open>authMiddleware\<close>

text \<open>
  The request context is the list of the keys set on it, the latest first.
  \<open>c.GetString\<close> gives the empty string for a key that is unset or not a string.
\<close>

type_synonym gin_context = "(string \<times> json) list"

definition Set_key :: "gin_context \<Rightarrow> string \<Rightarrow> json \<Rightarrow> gin_context" where
  "Set_key c k v = (k, v) # c"

definition GetString :: "gin_context \<Rightarrow> string \<Rightarrow> string" where
  "GetString c k = (case map_of c k of Some (JStr s) \<Rightarrow> s | _ \<Rightarrow> [])"

datatype middleware_result = Abort response | Next gin_context

definition authMiddleware :: "libs \<Rightarrow> string \<Rightarrow> time \<Rightarrow> string \<Rightarrow> panic + middleware_result" where
  "authMiddleware L jwtSecret now authHeader =
     (if authHeader = []
      then Inr (Abort (StatusUnauthorized, H [(''error'', JStr ''Missing authorization header'')]))
      else
        (case slice_from 7 authHeader of
           Inl p \<Rightarrow> Inl p
         | Inr tokenString \<Rightarrow>
             (case Parse L (keyFunc jwtSecret) now tokenString of
                Inl err \<Rightarrow> Inr (Abort (StatusUnauthorized, H [(''error'', JStr ''Invalid token'')]))
              | Inr tok \<Rightarrow>
                  (let claims = Claims tok;
                       c1 = Set_key [] ''user_id'' (index_map claims ''sub'');
                       c2 = Set_key c1 ''email'' (index_map claims ''email'');
                       c3 = Set_key c2 ''role'' (index_map claims ''role'')
                   in Inr (Next c3)))))"

subsection \<open>The account store\<close>

text \<open>
  The collection \<open>users\<close>. A document's \<open>_id\<close> is a BSON value: the ObjectID the driver
  generates when the struct's \<open>ID\<close> is empty (\<open>omitempty\<close>), written here by its hex
  form, or a BSON string. A filter on \<open>_id\<close> with a Go string compares with a BSON
  string and so never matches an ObjectID. \<open>created_at\<close> is a BSON date, in
  milliseconds.
\<close>

datatype bson_id = ObjectID string | StringID string

record user_doc =
  doc_id :: bson_id
  doc_email :: string
  doc_password :: string
  doc_role :: string
  doc_name :: string
  doc_active :: bool
  doc_created_at :: int

text \<open>
  The database: whether it answers, whether the unique index on \<open>email\<close> exists, and
  the documents in insertion order.
\<close>

record database =
  available :: bool
  email_unique :: bool
  users :: "user_doc list"

datatype store_error = ErrNoDocuments | DuplicateKey | NetworkError

record User =
  ID :: string
  Email :: string
  Password :: string
  Role :: string
  Name :: string
  Active :: bool
  CreatedAt :: time

definition Millisecond :: int where
  "Millisecond = 1000000"

definition encode_doc :: "bson_id \<Rightarrow> User \<Rightarrow> user_doc" where
  "encode_doc i u =
     \<lparr>doc_id = i, doc_email = Email u, doc_password = Password u, doc_role = Role u,
      doc_name = Name u, doc_active = Active u,
      doc_created_at = CreatedAt u div Millisecond\<rparr>"

text \<open>\<open>Decode(&user)\<close>: an ObjectID read into the string field gives its hex form.\<close>

definition Decode :: "user_doc \<Rightarrow> User" where
  "Decode d =
     \<lparr>ID = (case doc_id d of ObjectID h \<Rightarrow> h | StringID s \<Rightarrow> s),
      Email = doc_email d, Password = doc_password d, Role = doc_role d,
      Name = doc_name d, Active = doc_active d,
      CreatedAt = doc_created_at d * Millisecond\<rparr>"

text \<open>
  \<open>createIndexes\<close>: the unique index on \<open>email\<close> is built unless the database does
  not answer or already holds two documents with one email; the error is only logged.
\<close>

definition createIndexes :: "database \<Rightarrow> database" where
  "createIndexes db =
     (if \<not> available db then db
      else if \<not> distinct (map doc_email (users db)) then db
      else db\<lparr>email_unique := True\<rparr>)"

text \<open>
  \<open>InsertOne\<close>: \<open>oid\<close> is the ObjectID the driver generates for a document without
  \<open>_id\<close>. The insert fails on a duplicate \<open>_id\<close> and, when the index exists, on a
  duplicate email.
\<close>

definition InsertOne :: "database \<Rightarrow> string \<Rightarrow> User \<Rightarrow> store_error + bson_id \<times> database" where
  "InsertOne db oid u =
     (let new_id = (if ID u = [] then ObjectID oid else StringID (ID u)) in
      if \<not> available db then Inl NetworkError
      else if new_id \<in> set (map doc_id (users db)) then Inl DuplicateKey
      else if email_unique db \<and> Email u \<in> set (map doc_email (users db)) then Inl DuplicateKey
      else Inr (new_id, db\<lparr>users := users db @ [encode_doc new_id u]\<rparr>))"

text \<open>The two filters the service builds: \<open>bson.M{"email": s}\<close> and \<open>bson.M{"_id": s}\<close>.\<close>

datatype bson_M = Filter_email string | Filter_id string

fun matches :: "bson_M \<Rightarrow> user_doc \<Rightarrow> bool" where
  "matches (Filter_email e) d = (doc_email d = e)"
| "matches (Filter_id s) d = (doc_id d = StringID s)"

definition FindOne :: "database \<Rightarrow> bson_M \<Rightarrow> store_error + user_doc" where
  "FindOne db f =
     (if \<not> available db then Inl NetworkError
      else (case find (matches f) (users db) of
              None \<Rightarrow> Inl ErrNoDocuments
            | Some d \<Rightarrow> Inr d))"

text \<open>
  \<open>UpdateOne\<close> with \<open>$set name\<close>: the first matching document is changed. It returns
  the number of documents matched, and no error when that number is 0.
\<close>

fun set_name_first :: "bson_M \<Rightarrow> string \<Rightarrow> user_doc list \<Rightarrow> nat \<times> user_doc list" where
  "set_name_first f n [] = (0, [])"
| "set_name_first f n (d # ds) =
     (if matches f d then (1, d\<lparr>doc_name := n\<rparr> # ds)
      else (case set_name_first f n ds of (k, ds') \<Rightarrow> (k, d # ds')))"

definition UpdateOne :: "database \<Rightarrow> bson_M \<Rightarrow> string \<Rightarrow> store_error + nat \<times> database" where
  "UpdateOne db f n =
     (if \<not> available db then Inl NetworkError
      else (case set_name_first f n (users db) of
              (k, ds) \<Rightarrow> Inr (k, db\<lparr>users := ds\<rparr>)))"

subsection \<open>register\<close>

text \<open>
  The validator's \<open>min\<close> on a string counts runes. On the well-formed UTF-8 that the
  JSON decoder produces, the runes are the bytes that are not continuation bytes.
\<close>

definition rune_count :: "string \<Rightarrow> nat" where
  "rune_count s = length (filter (\<lambda>c. \<not> (128 \<le> (of_char c :: nat) \<and> (of_char c :: nat) < 192)) s)"

definition validate_email :: "libs \<Rightarrow> string \<Rightarrow> (string \<times> string) list" where
  "validate_email L email =
     (if email = [] then [(''Email'', ''required'')]
      else if \<not> is_email L email then [(''Email'', ''email'')]
      else [])"

definition validate_password :: "nat \<Rightarrow> string \<Rightarrow> (string \<times> string) list" where
  "validate_password m password =
     (if password = [] then [(''Password'', ''required'')]
      else if rune_count password < m then [(''Password'', ''min'')]
      else [])"

definition validate_name :: "string \<Rightarrow> (string \<times> string) list" where
  "validate_name name = (if name = [] then [(''Name'', ''required'')] else [])"

text \<open>
  The register request: \<open>email\<close> (required, email), \<open>password\<close> (required, min=8),
  \<open>name\<close> (required). The validations run when decoding gave no error, in the order of
  the struct's fields.
\<close>

definition bind_register :: "libs \<Rightarrow> json option \<Rightarrow> bind_error + string \<times> string \<times> string" where
  "bind_register L body =
     (case body_object body of
        Inl e \<Rightarrow> Inl e
      | Inr obj \<Rightarrow>
          (case unmarshal_error [''email'', ''password'', ''name''] obj of
             Some e \<Rightarrow> Inl e
           | None \<Rightarrow>
               (case validate_email L (unmarshal_string obj ''email'')
                       @ validate_password 8 (unmarshal_string obj ''password'')
                       @ validate_name (unmarshal_string obj ''name'') of
                  [] \<Rightarrow> Inr (unmarshal_string obj ''email'', unmarshal_string obj ''password'',
                             unmarshal_string obj ''name'')
                | errs \<Rightarrow> Inl (ValidationErrors errs))))"

definition id_json :: "bson_id \<Rightarrow> json" where
  "id_json i = (case i of ObjectID h \<Rightarrow> JStr h | StringID s \<Rightarrow> JStr s)"

text \<open>
  \<open>register\<close>: \<open>salt\<close> is the randomness bcrypt draws, \<open>now\<close> the clock reading for
  \<open>CreatedAt\<close>, \<open>oid\<close> the ObjectID the driver generates. It returns the response and the
  database after the call.
\<close>

definition register ::
  "libs \<Rightarrow> database \<Rightarrow> string \<Rightarrow> time \<Rightarrow> string \<Rightarrow> json option \<Rightarrow> response \<times> database" where
  "register L db salt now oid body =
     (case bind_register L body of
        Inl err \<Rightarrow> ((StatusBadRequest, H [(''error'', JStr (error_text L err))]), db)
      | Inr (req_Email, req_Password, req_Name) \<Rightarrow>
          (case GenerateFromPassword L salt req_Password of
             None \<Rightarrow>
               ((StatusInternalServerError, H [(''error'', JStr ''Failed to hash password'')]), db)
           | Some hashedPassword \<Rightarrow>
               (let user = \<lparr>ID = [], Email = req_Email, Password = hashedPassword,
                            Role = ''customer'', Name = req_Name, Active = True,
                            CreatedAt = now\<rparr>
                in case InsertOne db oid user of
                     Inl err \<Rightarrow>
                       ((StatusConflict, H [(''error'', JStr ''Email already exists'')]), db)
                   | Inr (InsertedID, db') \<Rightarrow>
                       ((StatusCreated,
                         H [(''message'', JStr ''User registered successfully''),
                            (''user_id'', id_json InsertedID)]), db'))))"

subsection \<open>login\<close>

text \<open>The login request: \<open>email\<close> (required, email), \<open>password\<close> (required, min=6).\<close>

definition bind_login :: "libs \<Rightarrow> json option \<Rightarrow> bind_error + string \<times> string" where
  "bind_login L body =
     (case body_object body of
        Inl e \<Rightarrow> Inl e
      | Inr obj \<Rightarrow>
          (case unmarshal_error [''email'', ''password''] obj of
             Some e \<Rightarrow> Inl e
           | None \<Rightarrow>
               (case validate_email L (unmarshal_string obj ''email'')
                       @ validate_password 6 (unmarshal_string obj ''password'') of
                  [] \<Rightarrow> Inr (unmarshal_string obj ''email'', unmarshal_string obj ''password'')
                | errs \<Rightarrow> Inl (ValidationErrors errs))))"

definition login ::
  "libs \<Rightarrow> database \<Rightarrow> string \<Rightarrow> time \<times> time \<times> time \<times> time \<Rightarrow> json option \<Rightarrow> response" where
  "login L db jwtSecret clock body =
     (case bind_login L body of
        Inl err \<Rightarrow> (StatusBadRequest, H [(''error'', JStr (error_text L err))])
      | Inr (req_Email, req_Password) \<Rightarrow>
          (case FindOne db (Filter_email req_Email) of
             Inl err \<Rightarrow> (StatusUnauthorized, H [(''error'', JStr ''Invalid credentials'')])
           | Inr d \<Rightarrow>
               (let user = Decode d in
                if \<not> CompareHashAndPassword L (Password user) req_Password
                then (StatusUnauthorized, H [(''error'', JStr ''Invalid credentials'')])
                else (StatusOK,
                      TokenResponse
                        (generateTokens L jwtSecret clock (ID user) (Email user) (Role user))))))"

subsection \<open>getProfile and updateProfile\<close>

text \<open>
  The JSON of a \<open>User\<close>: the fields in the struct's order under their \<open>json\<close> names;
  \<open>Password\<close> is tagged \<open>json:"-"\<close> and left out.
\<close>

definition User_json :: "libs \<Rightarrow> User \<Rightarrow> json" where
  "User_json L u =
     JObj [(''id'', JStr (ID u)), (''email'', JStr (Email u)), (''role'', JStr (Role u)),
           (''name'', JStr (Name u)), (''active'', JBool (Active u)),
           (''created_at'', JStr (time_text L (CreatedAt u)))]"

definition getProfile :: "libs \<Rightarrow> database \<Rightarrow> gin_context \<Rightarrow> response" where
  "getProfile L db c =
     (let userID = GetString c ''user_id'' in
      case FindOne db (Filter_id userID) of
        Inl err \<Rightarrow> (StatusNotFound, H [(''error'', JStr ''User not found'')])
      | Inr d \<Rightarrow> (StatusOK, User_json L (Decode d)))"

text \<open>
  The route \<open>GET /api/v1/auth/profile\<close>: \<open>authMiddleware\<close>, then \<open>getProfile\<close>
  unless the middleware aborted.
\<close>

definition GET_profile :: "libs \<Rightarrow> database \<Rightarrow> string \<Rightarrow> time \<Rightarrow> string \<Rightarrow> panic + response" where
  "GET_profile L db jwtSecret now authHeader =
     (case authMiddleware L jwtSecret now authHeader of
        Inl p \<Rightarrow> Inl p
      | Inr (Abort r) \<Rightarrow> Inr r
      | Inr (Next c) \<Rightarrow> Inr (getProfile L db c))"

text \<open>The update request: \<open>name\<close>, with no validation.\<close>

definition bind_update :: "json option \<Rightarrow> bind_error + string" where
  "bind_update body =
     (case body_object body of
        Inl e \<Rightarrow> Inl e
      | Inr obj \<Rightarrow>
          (case unmarshal_error [''name''] obj of
             Some e \<Rightarrow> Inl e
           | None \<Rightarrow> Inr (unmarshal_string obj ''name'')))"

definition updateProfile ::
  "libs \<Rightarrow> database \<Rightarrow> gin_context \<Rightarrow> json option \<Rightarrow> response \<times> database" where
  "updateProfile L db c body =
     (let userID = GetString c ''user_id'' in
      case bind_update body of
        Inl err \<Rightarrow> ((StatusBadRequest, H [(''error'', JStr (error_text L err))]), db)
      | Inr req_Name \<Rightarrow>
          (case UpdateOne db (Filter_id userID) req_Name of
             Inl err \<Rightarrow>
               ((StatusInternalServerError, H [(''error'', JStr ''Failed to update profile'')]), db)
           | Inr (matched, db') \<Rightarrow>
               ((StatusOK, H [(''message'', JStr ''Profile updated successfully'')]), db')))"

section \<open>A reference instance of the library primitives\<close>

text \<open>
  Concrete stand-ins on which the model runs on explicit inputs: base16 in place of
  base64url, a JSON codec given by a finite table of texts and their values, a keyed
  hash that writes out its three arguments, a password hasher that stores salt and
  password and refuses more than 72 bytes, an email test that looks for the at sign.
\<close>

definition hex_digits :: string where
  "hex_digits = ''0123456789abcdef''"

definition base16_char :: "char \<Rightarrow> string" where
  "base16_char c =
     [hex_digits ! ((of_char c :: nat) div 16), hex_digits ! ((of_char c :: nat) mod 16)]"

definition base16_encode :: "string \<Rightarrow> string" where
  "base16_encode s = concat (map base16_char s)"

fun index_of :: "char \<Rightarrow> string \<Rightarrow> nat option" where
  "index_of c [] = None"
| "index_of c (d # ds) =
     (if c = d then Some 0 else (case index_of c ds of None \<Rightarrow> None | Some i \<Rightarrow> Some (Suc i)))"

fun base16_decode :: "string \<Rightarrow> string option" where
  "base16_decode [] = Some []"
| "base16_decode [a] = None"
| "base16_decode (a # b # r) =
     (case (index_of a hex_digits, index_of b hex_digits, base16_decode r) of
        (Some x, Some y, Some s) \<Rightarrow> Some (char_of (16 * x + y) # s)
      | _ \<Rightarrow> None)"

definition table_Marshal :: "(string \<times> json) list \<Rightarrow> json \<Rightarrow> string" where
  "table_Marshal tbl j =
     (case find (\<lambda>e. snd e = j) tbl of None \<Rightarrow> ''null'' | Some e \<Rightarrow> fst e)"

definition ref_hmac :: "string \<Rightarrow> string \<Rightarrow> string \<Rightarrow> string" where
  "ref_hmac h k m = h @ '':'' @ k @ '':'' @ m"

definition ref_Generate :: "string \<Rightarrow> string \<Rightarrow> string option" where
  "ref_Generate salt password =
     (if 72 < length password then None else Some (salt @ ''$'' @ password))"

definition ref_Compare :: "string \<Rightarrow> string \<Rightarrow> bool" where
  "ref_Compare hashed password =
     (dropWhile (\<lambda>c. c \<noteq> CHR ''$'') hashed = ''$'' @ password)"

definition ref_libs :: "(string \<times> json) list \<Rightarrow> libs" where
  "ref_libs tbl =
     \<lparr>hmac_sum = ref_hmac,
      EncodeSegment = base16_encode,
      DecodeSegment = base16_decode,
      json_Marshal = table_Marshal tbl,
      json_Unmarshal = map_of tbl,
      GenerateFromPassword = ref_Generate,
      CompareHashAndPassword = ref_Compare,
      is_email = (\<lambda>s. CHR ''@'' \<in> set s),
      error_text = (\<lambda>e. ''invalid request''),
      time_text = (\<lambda>t. ''time'')\<rparr>"

section \<open>Observations used to state the properties\<close>

text \<open>
  What a token string declares before any verification: the header and the claims that
  its first two segments decode to.
\<close>

definition header_of :: "libs \<Rightarrow> string \<Rightarrow> (string \<times> json) list option" where
  "header_of L tokenString =
     (case split_dot tokenString of [p0, p1, p2] \<Rightarrow> decode_object L p0 | _ \<Rightarrow> None)"

definition claims_of :: "libs \<Rightarrow> string \<Rightarrow> (string \<times> json) list option" where
  "claims_of L tokenString =
     (case split_dot tokenString of [p0, p1, p2] \<Rightarrow> decode_object L p1 | _ \<Rightarrow> None)"

text \<open>The names of the HS family, as header values.\<close>

definition hmac_algs :: "json set" where
  "hmac_algs = {JStr ''HS256'', JStr ''HS384'', JStr ''HS512''}"

text \<open>
  The codecs are parameters, so a property that sends a token through issuing and parsing
  names what it needs of them on that token: a segment decodes back and holds no dot, an
  object survives marshalling.
\<close>

definition segment_roundtrip :: "libs \<Rightarrow> string \<Rightarrow> bool" where
  "segment_roundtrip L s =
     (CHR ''.'' \<notin> set (EncodeSegment L s) \<and> DecodeSegment L (EncodeSegment L s) = Some s)"

definition object_roundtrip :: "libs \<Rightarrow> (string \<times> json) list \<Rightarrow> bool" where
  "object_roundtrip L kvs =
     (segment_roundtrip L (json_Marshal L (JObj kvs)) \<and>
      json_Unmarshal L (json_Marshal L (JObj kvs)) = Some (JObj kvs))"

definition token_roundtrip :: "libs \<Rightarrow> string \<Rightarrow> token \<Rightarrow> bool" where
  "token_roundtrip L jwtSecret t =
     (object_roundtrip L (Header t) \<and> object_roundtrip L (Claims t) \<and>
      segment_roundtrip L (hmac_sum L ''SHA256'' jwtSecret (SigningString L t)))"

text \<open>Request bodies and responses that the properties name.\<close>

definition refresh_body :: "string \<Rightarrow> json option" where
  "refresh_body tokenString = Some (JObj [(''refresh_token'', JStr tokenString)])"

definition login_body :: "string \<Rightarrow> string \<Rightarrow> json option" where
  "login_body email password =
     Some (JObj [(''email'', JStr email), (''password'', JStr password)])"

definition register_body :: "string \<Rightarrow> string \<Rightarrow> string \<Rightarrow> json option" where
  "register_body email password name =
     Some (JObj [(''email'', JStr email), (''password'', JStr password), (''name'', JStr name)])"

definition Unauthorized :: "string \<Rightarrow> response" where
  "Unauthorized msg = (StatusUnauthorized, H [(''error'', JStr msg)])"

definition Created :: "string \<Rightarrow> response" where
  "Created oid =
     (201, JObj [(''message'', JStr ''User registered successfully''), (''user_id'', JStr oid)])"

definition Conflict :: response where
  "Conflict = (409, JObj [(''error'', JStr ''Email already exists'')])"

definition HashFailure :: response where
  "HashFailure = (500, JObj [(''error'', JStr ''Failed to hash password'')])"

text \<open>
  The invariant of the store once its index exists: the index is there and no two
  documents share an email.
\<close>

definition store_invariant :: "database \<Rightarrow> bool" where
  "store_invariant db = (email_unique db \<and> distinct (map doc_email (users db)))"

text \<open>The document that \<open>register\<close> inserts.\<close>

definition new_account :: "string \<Rightarrow> string \<Rightarrow> string \<Rightarrow> string \<Rightarrow> time \<Rightarrow> user_doc" where
  "new_account oid email hashed name now =
     \<lparr>doc_id = ObjectID oid, doc_email = email, doc_password = hashed,
      doc_role = ''customer'', doc_name = name, doc_active = True,
      doc_created_at = now div Millisecond\<rparr>"

subsection \<open>Concrete inputs\<close>

text \<open>
  Tokens, clock readings and stores on which the properties are run with the reference
  libraries. The tables give the JSON codec the headers and claims these runs meet.
\<close>

definition jwt_header :: "string \<Rightarrow> (string \<times> json) list" where
  "jwt_header alg = [(''typ'', JStr ''JWT''), (''alg'', JStr alg)]"

definition demo_claims :: "(string \<times> json) list" where
  "demo_claims = MapClaims ''u1'' ''a@x.com'' ''customer'' 2000000000 1700000000"

definition demo_table :: "(string \<times> json) list" where
  "demo_table =
     [(''h'', JObj (jwt_header ''HS256'')),
      (''g'', JObj (jwt_header ''HS384'')),
      (''n'', JObj (jwt_header ''none'')),
      (''c'', JObj demo_claims),
      (''z'', JObj (MapClaims ''u1'' ''a@x.com'' ''customer'' 0 1700000000)),
      (''e'', JObj [(''exp'', JNum 2000000000)])]"

definition issue_table :: "(string \<times> json) list" where
  "issue_table =
     [(''h'', JObj (jwt_header ''HS256'')),
      (''a'', JObj (MapClaims ''u1'' ''a@x.com'' ''customer'' 1700000900 1700000000)),
      (''r'', JObj (MapClaims ''u1'' ''a@x.com'' ''customer'' 1700604800 1700000000))]"

definition login_table :: "(string \<times> json) list" where
  "login_table =
     [(''h'', JObj (jwt_header ''HS256'')),
      (''a'', JObj (MapClaims ''65a1f00d9b3e4c2a8d7f0001'' ''a@x.com'' ''customer'' 1700000900 1700000000)),
      (''r'', JObj (MapClaims ''65a1f00d9b3e4c2a8d7f0001'' ''a@x.com'' ''customer'' 1700604800 1700000000))]"

definition demo_clock :: "time \<times> time \<times> time \<times> time" where
  "demo_clock =
     (1700000000 * Second + 100, 1700000000 * Second + 200,
      1700000000 * Second + 300, 1700000000 * Second + 400)"

text \<open>A password of 73 bytes: one more than bcrypt takes.\<close>

definition long_password :: string where
  "long_password = replicate 73 (CHR ''p'')"

definition empty_db :: database where
  "empty_db = \<lparr>available = True, email_unique = True, users = []\<rparr>"



definition ann_registered :: database where
  "ann_registered =
     \<lparr>available = True, email_unique = True,
      users = [new_account ''65a1f00d9b3e4c2a8d7f0001'' ''a@x.com'' ''salt$secret123'' ''Ann''
                 (1700000000 * Second)]\<rparr>"

section \<open>Properties\<close>

subsection \<open>Tokens: splitting, parsing, issuing\<close>

lemma split_dot_no_dot: "CHR ''.'' \<notin> set a \<Longrightarrow> split_dot a = [a]"
  by (induction a) auto

lemma split_dot_append:
  "CHR ''.'' \<notin> set a \<Longrightarrow> split_dot (a @ CHR ''.'' # r) = a # split_dot r"
  by (induction a) auto

lemma split_dot_three:
  assumes "CHR ''.'' \<notin> set a" "CHR ''.'' \<notin> set b" "CHR ''.'' \<notin> set c"
  shows "split_dot (a @ ''.'' @ b @ ''.'' @ c) = [a, b, c]"
  using assms by (simp add: split_dot_append split_dot_no_dot)

lemma decode_encode_object:
  "object_roundtrip L kvs \<Longrightarrow> decode_object L (encode_object L kvs) = Some kvs"
  by (simp add: object_roundtrip_def segment_roundtrip_def decode_object_def encode_object_def)

lemma encode_object_no_dot:
  "object_roundtrip L kvs \<Longrightarrow> CHR ''.'' \<notin> set (encode_object L kvs)"
  by (simp add: object_roundtrip_def segment_roundtrip_def encode_object_def)

lemma Parse_accepted:
  assumes "Parse L kf now ts = Inr tok"
  obtains p0 p1 p2 alg sig k where
    "split_dot ts = [p0, p1, p2]"
    "decode_object L p0 = Some (Header tok)"
    "decode_object L p1 = Some (Claims tok)"
    "index_map (Header tok) ''alg'' = JStr alg"
    "GetSigningMethod alg = Some (Method tok)"
    "DecodeSegment L p2 = Some sig"
    "kf tok = Inr k"
    "Verify L (Method tok) (p0 @ ''.'' @ p1) sig k"
    "Validate (Claims tok) now = []"
  using assms unfolding Parse_def
  by (auto split: list.splits option.splits json.splits sum.splits if_splits simp: Let_def)

lemma Verify_bytes:
  "Verify L m text sig (KeyBytes k) \<Longrightarrow>
     m \<in> {SigningMethodHS256, SigningMethodHS384, SigningMethodHS512}"
  by (cases m) auto

lemma GetSigningMethod_Alg: "GetSigningMethod alg = Some m \<Longrightarrow> Alg m = alg"
  by (auto simp: GetSigningMethod_def split: if_splits)

lemma Parse_rejects_other_alg:
  assumes "header_of L ts = Some h" "index_map h ''alg'' \<notin> hmac_algs"
  shows "\<exists>e. Parse L (keyFunc s) now ts = Inl e"
proof (cases "Parse L (keyFunc s) now ts")
  case (Inl e)
  then show ?thesis by blast
next
  case (Inr tok)
  then obtain p0 p1 p2 alg sig k where
    sp: "split_dot ts = [p0, p1, p2]" and hd: "decode_object L p0 = Some (Header tok)"
    and alg: "index_map (Header tok) ''alg'' = JStr alg"
    and gm: "GetSigningMethod alg = Some (Method tok)"
    and kf: "keyFunc s tok = Inr k"
    and vf: "Verify L (Method tok) (p0 @ ''.'' @ p1) sig k"
    by (rule Parse_accepted)
  from kf have k: "k = KeyBytes s" by (simp add: keyFunc_def)
  from vf k have "Method tok \<in> {SigningMethodHS256, SigningMethodHS384, SigningMethodHS512}"
    using Verify_bytes by blast
  with gm have "alg \<in> {''HS256'', ''HS384'', ''HS512''}"
    using GetSigningMethod_Alg [OF gm] by auto
  moreover from assms(1) sp hd have "h = Header tok" by (simp add: header_of_def)
  ultimately show ?thesis using assms(2) alg by (auto simp: hmac_algs_def)
qed

lemma ascii_lower_names:
  "ascii_lower CHR ''r'' = CHR ''r''"
  "ascii_lower CHR ''e'' = CHR ''e''"
  "ascii_lower CHR ''f'' = CHR ''f''"
  "ascii_lower CHR ''s'' = CHR ''s''"
  "ascii_lower CHR ''h'' = CHR ''h''"
  "ascii_lower CHR ''_'' = CHR ''_''"
  "ascii_lower CHR ''t'' = CHR ''t''"
  "ascii_lower CHR ''o'' = CHR ''o''"
  "ascii_lower CHR ''k'' = CHR ''k''"
  "ascii_lower CHR ''n'' = CHR ''n''"
  "ascii_lower CHR ''m'' = CHR ''m''"
  "ascii_lower CHR ''a'' = CHR ''a''"
  "ascii_lower CHR ''i'' = CHR ''i''"
  "ascii_lower CHR ''l'' = CHR ''l''"
  "ascii_lower CHR ''p'' = CHR ''p''"
  "ascii_lower CHR ''w'' = CHR ''w''"
  "ascii_lower CHR ''d'' = CHR ''d''"
  by (simp_all add: ascii_lower_def)

lemma bind_refresh_body: "ts \<noteq> [] \<Longrightarrow> bind_refresh (refresh_body ts) = Inr ts"
  by (simp add: bind_refresh_def refresh_body_def body_object_def unmarshal_error_def unmarshal_string_def set_string_def
        ascii_lower_names)

lemma header_of_nonempty: "header_of L ts = Some h \<Longrightarrow> ts \<noteq> []"
  by (auto simp: header_of_def)

lemma claims_of_nonempty: "claims_of L ts = Some h \<Longrightarrow> ts \<noteq> []"
  by (auto simp: claims_of_def)

lemma authMiddleware_rejected:
  assumes "Parse L (keyFunc s) now ts = Inl e" "length pre = 7"
  shows "authMiddleware L s now (pre @ ts) = Inr (Abort (Unauthorized ''Invalid token''))"
  using assms by (auto simp: authMiddleware_def slice_from_def Unauthorized_def)

lemma refreshToken_rejected:
  assumes "Parse L (keyFunc s) now ts = Inl e" "ts \<noteq> []"
  shows "refreshToken L s now clock (refresh_body ts) = Inr (Unauthorized ''Invalid refresh token'')"
  using assms by (simp add: refreshToken_def bind_refresh_body Unauthorized_def)

lemma Parse_claims_of:
  assumes "Parse L kf now ts = Inr tok"
  shows "claims_of L ts = Some (Claims tok) \<and> Validate (Claims tok) now = []"
proof -
  from assms obtain p0 p1 p2 where "split_dot ts = [p0, p1, p2]"
    "decode_object L p1 = Some (Claims tok)" "Validate (Claims tok) now = []"
    by (rule Parse_accepted)
  then show ?thesis by (simp add: claims_of_def)
qed

lemma Parse_error_kinds:
  assumes "claims_of L ts = Some cl" "Parse L kf now ts = Inl err"
  shows "err \<in> {TokenMalformed, TokenUnverifiable, TokenSignatureInvalid,
                 TokenInvalidClaims (Validate cl now)}"
  using assms unfolding Parse_def claims_of_def
  by (auto split: list.splits option.splits json.splits sum.splits if_splits simp: Let_def)

lemma expired_Validate:
  assumes "to_map cl ''exp'' = Some (JNum e)" "e \<noteq> 0"
  shows "TokenExpired \<in> set (Validate cl now) \<longleftrightarrow> time_of_seconds e \<le> now"
proof -
  have "TokenExpired \<notin> set (verifyNotBefore cl now)"
    by (auto simp: verifyNotBefore_def parseNumericDate_def
             split: sum.splits option.splits json.splits if_splits)
  moreover have "TokenExpired \<in> set (verifyExpiresAt cl now) \<longleftrightarrow> time_of_seconds e \<le> now"
    using assms by (auto simp: verifyExpiresAt_def parseNumericDate_def Before_def)
  ultimately show ?thesis by (simp add: Validate_def)
qed

lemma Parse_SignedString:
  assumes rt: "token_roundtrip L s (NewWithClaims SigningMethodHS256 cl)"
    and ok: "Validate cl now = []"
  shows "Parse L (keyFunc s) now
           (string_or_empty (SignedString L (NewWithClaims SigningMethodHS256 cl) (KeyBytes s)))
         = Inr (NewWithClaims SigningMethodHS256 cl)"
proof -
  let ?t = "NewWithClaims SigningMethodHS256 cl"
  let ?p0 = "encode_object L (Header ?t)"
  let ?p1 = "encode_object L (Claims ?t)"
  let ?sig = "hmac_sum L ''SHA256'' s (SigningString L ?t)"
  from rt have h: "object_roundtrip L (Header ?t)" and c: "object_roundtrip L (Claims ?t)"
    and g: "segment_roundtrip L ?sig"
    by (simp_all add: token_roundtrip_def)
  have str: "string_or_empty (SignedString L ?t (KeyBytes s))
               = ?p0 @ ''.'' @ ?p1 @ ''.'' @ EncodeSegment L ?sig"
    by (simp add: SignedString_def string_or_empty_def SigningString_def NewWithClaims_def)
  have sp: "split_dot (?p0 @ ''.'' @ ?p1 @ ''.'' @ EncodeSegment L ?sig)
              = [?p0, ?p1, EncodeSegment L ?sig]"
    using encode_object_no_dot [OF h] encode_object_no_dot [OF c] g
    by (intro split_dot_three) (simp_all add: segment_roundtrip_def)
  have d0: "decode_object L ?p0 = Some (Header ?t)" by (rule decode_encode_object [OF h])
  have d1: "decode_object L ?p1 = Some cl"
    using decode_encode_object [OF c] by (simp add: NewWithClaims_def)
  have d2: "DecodeSegment L (EncodeSegment L ?sig) = Some ?sig"
    using g by (simp add: segment_roundtrip_def)
  have alg: "index_map (Header ?t) ''alg'' = JStr ''HS256''"
    by (simp add: NewWithClaims_def index_map_def to_map_def)
  have gm: "GetSigningMethod ''HS256'' = Some SigningMethodHS256"
    by (simp add: GetSigningMethod_def)
  have sstr: "SigningString L ?t = ?p0 @ ''.'' @ ?p1" by (simp add: SigningString_def)
  show ?thesis
    unfolding str Parse_def sp
    using d0 d1 d2 alg gm ok sstr
    by (simp add: keyFunc_def Let_def NewWithClaims_def)
qed

lemma Validate_MapClaims:
  "now < time_of_seconds exp \<Longrightarrow> Validate (MapClaims sub email role exp iat) now = []"
  by (simp add: Validate_def verifyExpiresAt_def verifyNotBefore_def parseNumericDate_def
        MapClaims_def to_map_def Before_def)

lemma Second_pos: "0 < Second"
  by (simp add: Second_def)

lemma div_add_multiple: "(c::int) \<noteq> 0 \<Longrightarrow> (t + k * c) div c = t div c + k"
  by simp

lemma Unix_Add_minutes: "Unix (Add t (15 * Minute)) = Unix t + 900"
proof -
  have m: "15 * Minute = 900 * Second" by (simp add: Minute_def)
  have "(t + 900 * Second) div Second = t div Second + 900"
    using Second_pos by (intro div_add_multiple) simp
  then show ?thesis by (simp add: Unix_def Add_def m)
qed

lemma Unix_mono: "t \<le> u \<Longrightarrow> Unix t \<le> Unix u"
  unfolding Unix_def using Second_pos by (simp add: zdiv_mono1)

lemma Unix_within_second:
  assumes "t \<le> u" "u < t + Second"
  shows "Unix u \<le> Unix t + 1"
proof -
  from assms have "u \<le> t + 1 * Second" by simp
  then have "u div Second \<le> (t + 1 * Second) div Second"
    using Second_pos by (rule zdiv_mono1)
  also have "\<dots> = t div Second + 1"
    using Second_pos by (intro div_add_multiple) simp
  finally show ?thesis by (simp add: Unix_def)
qed

lemma generateTokens_verifies:
  assumes "token_roundtrip L jwtSecret
             (NewWithClaims SigningMethodHS256
                (MapClaims userID email role (Unix (Add t1 (15 * Minute))) (Unix t3)))"
    and "now < time_of_seconds (Unix (Add t1 (15 * Minute)))"
  shows "Parse L (keyFunc jwtSecret) now
           (fst (generateTokens L jwtSecret (t1, t2, t3, t4) userID email role))
         = Inr (NewWithClaims SigningMethodHS256
                  (MapClaims userID email role (Unix (Add t1 (15 * Minute))) (Unix t3)))"
proof -
  have "fst (generateTokens L jwtSecret (t1, t2, t3, t4) userID email role)
          = string_or_empty
              (SignedString L
                 (NewWithClaims SigningMethodHS256
                    (MapClaims userID email role (Unix (Add t1 (15 * Minute))) (Unix t3)))
                 (KeyBytes jwtSecret))"
    by (simp add: generateTokens_def Let_def)
  then show ?thesis
    using Parse_SignedString [OF assms(1) Validate_MapClaims [OF assms(2)]] by simp
qed

subsection \<open>The algorithm a token declares\<close>

text \<open>
  C1. The claim: verification pins a single signing algorithm, and a token whose header
  declares \<open>none\<close> or any other algorithm than the pinned one is rejected. Neither
  handler passes the parser a list of valid methods, and their key function hands the
  secret back for every token, so the method is the one the header names. What holds:
  a token whose header declares anything outside HS256, HS384 and HS512 (so \<open>none\<close>,
  every asymmetric method, an unknown or missing name) is refused by the parser, and both
  handlers answer 401.
\<close>

theorem verifier_rejects_non_hmac_algorithms:
  assumes "header_of L tokenString = Some header"
    and "index_map header ''alg'' \<notin> hmac_algs"
    and "length prefix = 7"
  shows "(\<exists>e. Parse L (keyFunc jwtSecret) now tokenString = Inl e) \<and>
         authMiddleware L jwtSecret now (prefix @ tokenString)
           = Inr (Abort (Unauthorized ''Invalid token'')) \<and>
         refreshToken L jwtSecret now clock (refresh_body tokenString)
           = Inr (Unauthorized ''Invalid refresh token'')"
proof -
  obtain e where e: "Parse L (keyFunc jwtSecret) now tokenString = Inl e"
    using Parse_rejects_other_alg [OF assms(1,2)] by blast
  from assms(1) have ne: "tokenString \<noteq> []" by (rule header_of_nonempty)
  show ?thesis
    using e authMiddleware_rejected [OF e assms(3)] refreshToken_rejected [OF e ne] by blast
qed

text \<open>An instance: the unsigned token \<open>6e.63.\<close>, whose header declares \<open>none\<close>.\<close>

lemma demo_header_none:
  "header_of (ref_libs demo_table) ''6e.63.'' = Some (jwt_header ''none'')"
  by code_simp

lemma demo_none_not_hmac: "index_map (jwt_header ''none'') ''alg'' \<notin> hmac_algs"
  by (simp add: index_map_def to_map_def jwt_header_def hmac_algs_def)

theorem verifier_rejects_non_hmac_algorithms_witness:
  "header_of (ref_libs demo_table) ''6e.63.'' = Some (jwt_header ''none'') \<and>
   index_map (jwt_header ''none'') ''alg'' = JStr ''none'' \<and>
   authMiddleware (ref_libs demo_table) ''k'' (1700000000 * Second) (''Bearer '' @ ''6e.63.'')
     = Inr (Abort (Unauthorized ''Invalid token'')) \<and>
   refreshToken (ref_libs demo_table) ''k'' (1700000000 * Second) (0, 0, 0, 0)
       (refresh_body ''6e.63.'')
     = Inr (Unauthorized ''Invalid refresh token'')"
  using verifier_rejects_non_hmac_algorithms
          [OF demo_header_none demo_none_not_hmac, of "''Bearer ''" "''k''"
             "1700000000 * Second" "(0, 0, 0, 0)"]
        demo_header_none
  by (simp add: index_map_def to_map_def jwt_header_def)

text \<open>
  Where the claim fails: a token that declares HS384 and carries the HS384 keyed hash
  under the service's secret passes the middleware, although the service issues HS256 only.
\<close>

theorem verifier_accepts_HS384_counterexample:
  "SignedString (ref_libs demo_table) (NewWithClaims SigningMethodHS384 demo_claims) (KeyBytes ''k'')
     = Some ''67.63.5348413338343a6b3a36372e3633'' \<and>
   header_of (ref_libs demo_table) ''67.63.5348413338343a6b3a36372e3633''
     = Some [(''typ'', JStr ''JWT''), (''alg'', JStr ''HS384'')] \<and>
   authMiddleware (ref_libs demo_table) ''k'' (1700000000 * Second)
       ''Bearer 67.63.5348413338343a6b3a36372e3633''
     = Inr (Next [(''role'', JStr ''customer''), (''email'', JStr ''a@x.com''),
                  (''user_id'', JStr ''u1'')])"
  by code_simp

subsection \<open>Expiry\<close>

text \<open>
  C4. The claim: a token is accepted only when the current time is strictly before its
  \<open>exp\<close>, and rejected as expired when the current time has reached it. What holds,
  for a token whose claims carry a number other than 0 as \<open>exp\<close>: if the parser accepts
  the token then the time is strictly before \<open>exp\<close>; and once the time has reached
  \<open>exp\<close> the validator reports \<open>TokenExpired\<close>, the parser returns an error (that of an
  earlier stage, or the claims error holding \<open>TokenExpired\<close>) and both handlers answer
  401.
\<close>

theorem expiry_is_strict:
  assumes "claims_of L tokenString = Some claims"
    and "to_map claims ''exp'' = Some (JNum e)"
    and "e \<noteq> 0"
    and "length prefix = 7"
  shows "(\<forall>tok. Parse L (keyFunc jwtSecret) now tokenString = Inr tok \<longrightarrow> now < time_of_seconds e) \<and>
         (time_of_seconds e \<le> now \<longrightarrow>
            TokenExpired \<in> set (Validate claims now) \<and>
            (\<exists>err. Parse L (keyFunc jwtSecret) now tokenString = Inl err \<and>
                   err \<in> {TokenMalformed, TokenUnverifiable, TokenSignatureInvalid,
                           TokenInvalidClaims (Validate claims now)}) \<and>
            authMiddleware L jwtSecret now (prefix @ tokenString)
              = Inr (Abort (Unauthorized ''Invalid token'')) \<and>
            refreshToken L jwtSecret now clock (refresh_body tokenString)
              = Inr (Unauthorized ''Invalid refresh token''))"
proof (intro conjI allI impI)
  fix tok assume acc: "Parse L (keyFunc jwtSecret) now tokenString = Inr tok"
  from Parse_claims_of [OF acc] assms(1) have "Validate claims now = []" by simp
  with expired_Validate [OF assms(2,3), of now] show "now < time_of_seconds e" by auto
next
  assume late: "time_of_seconds e \<le> now"
  then show ex: "TokenExpired \<in> set (Validate claims now)"
    using expired_Validate [OF assms(2,3)] by simp
  have rej: "\<exists>err. Parse L (keyFunc jwtSecret) now tokenString = Inl err"
  proof (cases "Parse L (keyFunc jwtSecret) now tokenString")
    case (Inl err) then show ?thesis by blast
  next
    case (Inr tok)
    from Parse_claims_of [OF Inr] assms(1) have "Validate claims now = []" by simp
    with ex show ?thesis by simp
  qed
  then obtain err where err: "Parse L (keyFunc jwtSecret) now tokenString = Inl err" by blast
  from Parse_error_kinds [OF assms(1) err]
  show "\<exists>err. Parse L (keyFunc jwtSecret) now tokenString = Inl err \<and>
          err \<in> {TokenMalformed, TokenUnverifiable, TokenSignatureInvalid,
                  TokenInvalidClaims (Validate claims now)}"
    using err by blast
  show "authMiddleware L jwtSecret now (prefix @ tokenString)
          = Inr (Abort (Unauthorized ''Invalid token''))"
    by (rule authMiddleware_rejected [OF err assms(4)])
  show "refreshToken L jwtSecret now clock (refresh_body tokenString)
          = Inr (Unauthorized ''Invalid refresh token'')"
    by (rule refreshToken_rejected [OF err claims_of_nonempty [OF assms(1)]])
qed

text \<open>
  An instance: a token with \<open>exp\<close> 2000000000, accepted one nanosecond before that
  instant and rejected at it.
\<close>

lemma demo_claims_of:
  "claims_of (ref_libs demo_table) ''68.63.5348413235363a6b3a36382e3633'' = Some demo_claims"
  by code_simp

lemma demo_claims_exp: "to_map demo_claims ''exp'' = Some (JNum 2000000000)"
  by code_simp

lemma demo_accept:
  "Parse (ref_libs demo_table) (keyFunc ''k'') (2000000000 * Second - 1)
     ''68.63.5348413235363a6b3a36382e3633''
   = Inr \<lparr>Header = jwt_header ''HS256'', Claims = demo_claims, Method = SigningMethodHS256\<rparr>"
  by code_simp

lemma demo_reject:
  "Parse (ref_libs demo_table) (keyFunc ''k'') (2000000000 * Second)
     ''68.63.5348413235363a6b3a36382e3633''
   = Inl (TokenInvalidClaims [TokenExpired])"
  by code_simp

theorem expiry_is_strict_witness:
  "claims_of (ref_libs demo_table) ''68.63.5348413235363a6b3a36382e3633'' = Some demo_claims \<and>
   to_map demo_claims ''exp'' = Some (JNum 2000000000) \<and>
   Parse (ref_libs demo_table) (keyFunc ''k'') (2000000000 * Second - 1)
       ''68.63.5348413235363a6b3a36382e3633''
     = Inr \<lparr>Header = jwt_header ''HS256'', Claims = demo_claims, Method = SigningMethodHS256\<rparr> \<and>
   2000000000 * Second - 1 < time_of_seconds 2000000000 \<and>
   Parse (ref_libs demo_table) (keyFunc ''k'') (2000000000 * Second)
       ''68.63.5348413235363a6b3a36382e3633''
     = Inl (TokenInvalidClaims [TokenExpired]) \<and>
   authMiddleware (ref_libs demo_table) ''k'' (2000000000 * Second)
       (''Bearer '' @ ''68.63.5348413235363a6b3a36382e3633'')
     = Inr (Abort (Unauthorized ''Invalid token''))"
proof -
  have len: "length ''Bearer '' = 7" by simp
  have ne: "(2000000000::int) \<noteq> 0" by simp
  note a = expiry_is_strict [OF demo_claims_of demo_claims_exp ne len,
      of "''k''" "2000000000 * Second - 1" "(0, 0, 0, 0)"]
  note b = expiry_is_strict [OF demo_claims_of demo_claims_exp ne len,
      of "''k''" "2000000000 * Second" "(0, 0, 0, 0)"]
  have late: "time_of_seconds 2000000000 \<le> 2000000000 * Second"
    by (simp add: time_of_seconds_def)
  from a demo_accept have "2000000000 * Second - 1 < time_of_seconds 2000000000" by blast
  moreover from b late have "authMiddleware (ref_libs demo_table) ''k'' (2000000000 * Second)
       (''Bearer '' @ ''68.63.5348413235363a6b3a36382e3633'')
     = Inr (Abort (Unauthorized ''Invalid token''))" by blast
  ultimately show ?thesis
    using demo_claims_of demo_claims_exp demo_accept demo_reject by blast
qed

text \<open>
  Where the claim fails: the claims reader takes the number 0 for "no expiry", so a token
  with \<open>exp\<close> 0 passes the middleware in 2023.
\<close>

theorem zero_expiry_never_expires_counterexample:
  "SignedString (ref_libs demo_table)
       (NewWithClaims SigningMethodHS256 (MapClaims ''u1'' ''a@x.com'' ''customer'' 0 1700000000))
       (KeyBytes ''k'')
     = Some ''68.7a.5348413235363a6b3a36382e3761'' \<and>
   claims_of (ref_libs demo_table) ''68.7a.5348413235363a6b3a36382e3761''
     = Some (MapClaims ''u1'' ''a@x.com'' ''customer'' 0 1700000000) \<and>
   to_map (MapClaims ''u1'' ''a@x.com'' ''customer'' 0 1700000000) ''exp'' = Some (JNum 0) \<and>
   time_of_seconds 0 \<le> 1700000000 * Second \<and>
   authMiddleware (ref_libs demo_table) ''k'' (1700000000 * Second)
       ''Bearer 68.7a.5348413235363a6b3a36382e3761''
     = Inr (Next [(''role'', JStr ''customer''), (''email'', JStr ''a@x.com''),
                  (''user_id'', JStr ''u1'')])"
  by code_simp

subsection \<open>Issuing, then verifying\<close>

text \<open>
  C7. For every id, email and role: the access token that \<open>generateTokens\<close> issues,
  parsed with the same secret before it expires, is accepted, and its claims are the ones
  issued: \<open>sub\<close>, \<open>email\<close> and \<open>role\<close> unchanged, and \<open>exp - iat\<close> equal to 15
  minutes less the whole seconds between the clock reading taken for the expiry and the
  later one taken for \<open>iat\<close>: exactly 900 when both fall in one second, never more than
  900, at least 899 when they are less than a second apart. The codecs are asked to give
  this token's segments back.
\<close>

theorem access_token_roundtrip:
  assumes "token_roundtrip L jwtSecret
             (NewWithClaims SigningMethodHS256
                (MapClaims userID email role (Unix (Add t1 (15 * Minute))) (Unix t3)))"
    and "now < time_of_seconds (Unix (Add t1 (15 * Minute)))"
  shows "\<exists>tok exp iat.
           Parse L (keyFunc jwtSecret) now
             (fst (generateTokens L jwtSecret (t1, t2, t3, t4) userID email role)) = Inr tok \<and>
           Claims tok = MapClaims userID email role exp iat \<and>
           index_map (Claims tok) ''sub'' = JStr userID \<and>
           index_map (Claims tok) ''email'' = JStr email \<and>
           index_map (Claims tok) ''role'' = JStr role \<and>
           index_map (Claims tok) ''exp'' = JNum exp \<and>
           index_map (Claims tok) ''iat'' = JNum iat \<and>
           exp - iat = 15 * 60 - (Unix t3 - Unix t1) \<and>
           (Unix t3 = Unix t1 \<longrightarrow> exp - iat = 15 * 60) \<and>
           (t1 \<le> t3 \<longrightarrow> exp - iat \<le> 15 * 60) \<and>
           (t1 \<le> t3 \<and> t3 < t1 + Second \<longrightarrow> 15 * 60 - 1 \<le> exp - iat)"
proof -
  let ?exp = "Unix (Add t1 (15 * Minute))"
  let ?cl = "MapClaims userID email role ?exp (Unix t3)"
  let ?t = "NewWithClaims SigningMethodHS256 ?cl"
  have acc: "fst (generateTokens L jwtSecret (t1, t2, t3, t4) userID email role)
               = string_or_empty (SignedString L ?t (KeyBytes jwtSecret))"
    by (simp add: generateTokens_def Let_def)
  have p: "Parse L (keyFunc jwtSecret) now
             (fst (generateTokens L jwtSecret (t1, t2, t3, t4) userID email role)) = Inr ?t"
    unfolding acc by (rule Parse_SignedString [OF assms(1) Validate_MapClaims [OF assms(2)]])
  have cl: "Claims ?t = ?cl" by (simp add: NewWithClaims_def)
  have ix: "index_map ?cl ''sub'' = JStr userID" "index_map ?cl ''email'' = JStr email"
    "index_map ?cl ''role'' = JStr role" "index_map ?cl ''exp'' = JNum ?exp"
    "index_map ?cl ''iat'' = JNum (Unix t3)"
    by (simp_all add: MapClaims_def index_map_def to_map_def)
  have d: "?exp - Unix t3 = 15 * 60 - (Unix t3 - Unix t1)"
    by (simp add: Unix_Add_minutes)
  have le: "t1 \<le> t3 \<longrightarrow> ?exp - Unix t3 \<le> 15 * 60"
    using Unix_mono [of t1 t3] by (auto simp: d)
  have ge: "t1 \<le> t3 \<and> t3 < t1 + Second \<longrightarrow> 15 * 60 - 1 \<le> ?exp - Unix t3"
    using Unix_within_second [of t1 t3] by (auto simp: d)
  have eq: "Unix t3 = Unix t1 \<longrightarrow> ?exp - Unix t3 = 15 * 60"
    by (simp add: Unix_Add_minutes)
  show ?thesis
    using p cl ix d le ge eq by (intro exI [of _ ?t] exI [of _ ?exp] exI [of _ "Unix t3"]) simp
qed

text \<open>An instance: a token issued at 1700000000 and verified a minute later.\<close>

lemma demo_roundtrip:
  "token_roundtrip (ref_libs issue_table) ''k''
     (NewWithClaims SigningMethodHS256
        (MapClaims ''u1'' ''a@x.com'' ''customer''
           (Unix (Add (1700000000 * Second + 100) (15 * Minute)))
           (Unix (1700000000 * Second + 300))))"
  by code_simp

lemma demo_live:
  "1700000060 * Second < time_of_seconds (Unix (Add (1700000000 * Second + 100) (15 * Minute)))"
  by code_simp

theorem access_token_roundtrip_witness:
  "token_roundtrip (ref_libs issue_table) ''k''
     (NewWithClaims SigningMethodHS256
        (MapClaims ''u1'' ''a@x.com'' ''customer''
           (Unix (Add (1700000000 * Second + 100) (15 * Minute)))
           (Unix (1700000000 * Second + 300)))) \<and>
   1700000060 * Second < time_of_seconds (Unix (Add (1700000000 * Second + 100) (15 * Minute))) \<and>
   (\<exists>tok. Parse (ref_libs issue_table) (keyFunc ''k'') (1700000060 * Second)
             (fst (generateTokens (ref_libs issue_table) ''k''
                     (1700000000 * Second + 100, 1700000000 * Second + 200,
                      1700000000 * Second + 300, 1700000000 * Second + 400)
                     ''u1'' ''a@x.com'' ''customer'')) = Inr tok \<and>
          index_map (Claims tok) ''sub'' = JStr ''u1'' \<and>
          index_map (Claims tok) ''email'' = JStr ''a@x.com'' \<and>
          index_map (Claims tok) ''role'' = JStr ''customer'')"
  using access_token_roundtrip [OF demo_roundtrip demo_live,
          of "1700000000 * Second + 200" "1700000000 * Second + 400"]
        demo_roundtrip demo_live
  by blast

subsection \<open>The refresh handler and an incomplete claim set\<close>

text \<open>
  C3. The claim: \<open>refreshToken\<close> is total, and a verified token without a string
  \<open>sub\<close>, \<open>email\<close> or \<open>role\<close> gives the invalid-token error. The handler asserts the
  type of each claim without a check: on a token signed with the secret whose claims are
  only \<open>exp\<close>, the parser accepts and the assertion on \<open>sub\<close> panics.
\<close>

theorem refreshToken_missing_sub_panics:
  "SignedString (ref_libs demo_table)
       (NewWithClaims SigningMethodHS256 [(''exp'', JNum 2000000000)]) (KeyBytes ''k'')
     = Some ''68.65.5348413235363a6b3a36382e3635'' \<and>
   Parse (ref_libs demo_table) (keyFunc ''k'') (1700000000 * Second)
       ''68.65.5348413235363a6b3a36382e3635''
     = Inr \<lparr>Header = jwt_header ''HS256'', Claims = [(''exp'', JNum 2000000000)],
            Method = SigningMethodHS256\<rparr> \<and>
   refreshToken (ref_libs demo_table) ''k'' (1700000000 * Second) demo_clock
       (refresh_body ''68.65.5348413235363a6b3a36382e3635'')
     = Inl (InterfaceConversion ''string'')"
  by code_simp

subsection \<open>The middleware and a short header\<close>

text \<open>
  C10. The claim: for every non-empty Authorization header of any length,
  \<open>authMiddleware\<close> answers 401 or calls the next handler and never crashes. The code
  slices the header at byte 7 without looking at its length: on the six-byte header
  \<open>Bearer\<close> the slice panics, whatever the libraries, the secret and the time.
\<close>

theorem authMiddleware_short_header_panics:
  "authMiddleware L jwtSecret now ''Bearer'' = Inl SliceBoundsOutOfRange"
  by (simp add: authMiddleware_def slice_from_def)

subsection \<open>Profiles\<close>

text \<open>
  What \<open>getProfile\<close> writes when the lookup finds a document, and the absence of the
  hash from every response.
\<close>

lemma getProfile_found:
  assumes "FindOne db (Filter_id (GetString c ''user_id'')) = Inr d"
  shows "getProfile L db c =
           (StatusOK,
            JObj [(''id'', JStr (ID (Decode d))), (''email'', JStr (doc_email d)),
                  (''role'', JStr (doc_role d)), (''name'', JStr (doc_name d)),
                  (''active'', JBool (doc_active d)),
                  (''created_at'', JStr (time_text L (doc_created_at d * Millisecond)))])"
  using assms by (simp add: getProfile_def User_json_def Decode_def)

lemma getProfile_keys:
  "\<exists>kvs. snd (getProfile L db c) = JObj kvs \<and> ''password'' \<notin> set (map fst kvs)"
  by (cases "FindOne db (Filter_id (GetString c ''user_id''))")
     (simp_all add: getProfile_def User_json_def H_def)

lemma getProfile_no_string_id:
  assumes "StringID (GetString c ''user_id'') \<notin> set (map doc_id (users db))"
  shows "getProfile L db c = (StatusNotFound, H [(''error'', JStr ''User not found'')])"
proof -
  from assms have "find (matches (Filter_id (GetString c ''user_id''))) (users db) = None"
    by (force simp: find_None_iff)
  then have "\<exists>e. FindOne db (Filter_id (GetString c ''user_id'')) = Inl e"
    by (simp add: FindOne_def)
  then show ?thesis by (auto simp: getProfile_def)
qed

lemma register_stores_ObjectID:
  "set (map doc_id (users (snd (register L db salt now oid body))))
     \<subseteq> insert (ObjectID oid) (set (map doc_id (users db)))"
  by (auto simp: register_def InsertOne_def Let_def encode_doc_def
        split: sum.splits option.splits prod.splits if_splits)

text \<open>
  From a store whose ids are all generated ObjectIDs, the empty store for one, no
  registration leads to a store in which \<open>getProfile\<close> finds an account.
\<close>

lemma getProfile_after_register:
  assumes "\<forall>d \<in> set (users db). \<exists>h. doc_id d = ObjectID h"
  shows "getProfile L (snd (register L' db salt now oid body)) c
           = (StatusNotFound, H [(''error'', JStr ''User not found'')])"
proof (rule getProfile_no_string_id)
  from assms have "StringID (GetString c ''user_id'') \<notin> set (map doc_id (users db))"
    by auto
  with register_stores_ObjectID [of L' db salt now oid body]
  show "StringID (GetString c ''user_id'')
          \<notin> set (map doc_id (users (snd (register L' db salt now oid body))))"
    by auto
qed

text \<open>
  C8. The claim: for every account in the store, the response of \<open>getProfile\<close> holds
  the profile fields (id, email, role, name, active, created_at) and never the stored
  hash. The hash is indeed never written, \<open>Password\<close> being tagged \<open>json:"-"\<close>. But
  the handler filters \<open>_id\<close> by the Go string of the token's \<open>sub\<close>, while
  \<open>register\<close> leaves \<open>ID\<close> empty, so that the driver stores a generated ObjectID, and a
  BSON string never equals an ObjectID: an account the service registered is never
  found. Ann registers on the empty store, logs in, and sends the access token she got
  to \<open>GET /api/v1/auth/profile\<close>, one minute later: the answer is 404.
\<close>

theorem getProfile_registered_account_not_found:
  "register (ref_libs login_table) empty_db ''salt'' (1700000000 * Second)
       ''65a1f00d9b3e4c2a8d7f0001'' (register_body ''a@x.com'' ''secret123'' ''Ann'')
     = ((201, JObj [(''message'', JStr ''User registered successfully''),
                    (''user_id'', JStr ''65a1f00d9b3e4c2a8d7f0001'')]), ann_registered) \<and>
   login (ref_libs login_table) ann_registered ''k'' demo_clock
       (login_body ''a@x.com'' ''secret123'')
     = (200, JObj [(''access_token'', JStr ''68.61.5348413235363a6b3a36382e3631''),
                   (''refresh_token'', JStr ''68.72.5348413235363a6b3a36382e3732''),
                   (''expires_in'', JNum 1700000900)]) \<and>
   GET_profile (ref_libs login_table) ann_registered ''k'' (1700000060 * Second)
       ''Bearer 68.61.5348413235363a6b3a36382e3631''
     = Inr (404, JObj [(''error'', JStr ''User not found'')])"
  by code_simp

text \<open>
  C5. The claim: \<open>updateProfile\<close> for an id that resolves to no account fails with 404,
  and answers 200 only when the account exists and its name was updated. The handler
  looks only at the error of \<open>UpdateOne\<close> and drops the matched count: on a store with
  no account at all it answers 200 and changes nothing.
\<close>

theorem updateProfile_unknown_account_succeeds:
  "updateProfile L empty_db [(''user_id'', JStr ''ghost'')] (Some (JObj [(''name'', JStr ''Zed'')]))
     = ((StatusOK, H [(''message'', JStr ''Profile updated successfully'')]), empty_db)"
  by (simp add: updateProfile_def empty_db_def GetString_def bind_update_def body_object_def
        unmarshal_error_def unmarshal_string_def set_string_def
        ascii_lower_names UpdateOne_def)

subsection \<open>Login failures\<close>






text \<open>
  An instance: against a store holding a@x.com, a login for nouser@x.com and a login
  for a@x.com with a wrong password.
\<close>

lemma bind_login_body:
  assumes "email \<noteq> []" "is_email L email" "6 \<le> rune_count password"
  shows "bind_login L (login_body email password) = Inr (email, password)"
proof -
  from assms(3) have "password \<noteq> []" by (auto simp: rune_count_def)
  with assms show ?thesis
    by (simp add: bind_login_def login_body_def body_object_def unmarshal_error_def unmarshal_string_def set_string_def
        ascii_lower_names
          validate_email_def validate_password_def)
qed







subsection \<open>Registration\<close>

lemma register_hash_refused:
  assumes "bind_register L body = Inr (email, password, name)"
    and "GenerateFromPassword L salt password = None"
  shows "register L db salt now oid body = (HashFailure, db)"
  using assms
  by (simp add: register_def HashFailure_def StatusInternalServerError_def H_def)

lemma register_valid:
  assumes "bind_register L body = Inr (email, password, name)"
    and "GenerateFromPassword L salt password = Some hashed"
  shows "register L db salt now oid body =
           (case InsertOne db oid
                   \<lparr>ID = [], Email = email, Password = hashed, Role = ''customer'',
                    Name = name, Active = True, CreatedAt = now\<rparr> of
              Inl err \<Rightarrow> (Conflict, db)
            | Inr (i, db') \<Rightarrow> ((StatusCreated,
                 H [(''message'', JStr ''User registered successfully''),
                    (''user_id'', id_json i)]), db'))"
  using assms
  by (simp add: register_def Conflict_def StatusConflict_def H_def Let_def split: sum.splits)

lemma InsertOne_duplicate:
  assumes "email_unique db" "Email u \<in> set (map doc_email (users db))"
  shows "\<exists>e. InsertOne db oid u = Inl e"
  using assms by (simp add: InsertOne_def Let_def)

lemma InsertOne_fresh:
  assumes "available db" "Email u \<notin> set (map doc_email (users db))"
    and "ID u = []" "ObjectID oid \<notin> set (map doc_id (users db))"
  shows "InsertOne db oid u =
           Inr (ObjectID oid, db\<lparr>users := users db @ [encode_doc (ObjectID oid) u]\<rparr>)"
  using assms by (simp add: InsertOne_def Let_def)

lemma InsertOne_invariant:
  assumes "store_invariant db" "InsertOne db oid u = Inr (i, db')"
  shows "store_invariant db'"
  using assms
  by (auto simp: InsertOne_def Let_def store_invariant_def encode_doc_def split: if_splits)

lemma register_duplicate:
  assumes "store_invariant db"
    and "bind_register L body = Inr (email, password, name)"
    and "GenerateFromPassword L salt password = Some hashed"
    and "email \<in> set (map doc_email (users db))"
  shows "register L db salt now oid body = (Conflict, db)"
proof -
  let ?u = "\<lparr>ID = [], Email = email, Password = hashed, Role = ''customer'',
             Name = name, Active = True, CreatedAt = now\<rparr>"
  from assms(1,4) obtain e where "InsertOne db oid ?u = Inl e"
    using InsertOne_duplicate [of db ?u oid] by (auto simp: store_invariant_def)
  with register_valid [OF assms(2,3), of db now oid] show ?thesis by simp
qed

lemma register_fresh:
  assumes "bind_register L body = Inr (email, password, name)"
    and "GenerateFromPassword L salt password = Some hashed"
    and "email \<notin> set (map doc_email (users db))"
    and "available db"
    and "ObjectID oid \<notin> set (map doc_id (users db))"
  shows "register L db salt now oid body =
           (Created oid, db\<lparr>users := users db @ [new_account oid email hashed name now]\<rparr>)"
proof -
  let ?u = "\<lparr>ID = [], Email = email, Password = hashed, Role = ''customer'',
             Name = name, Active = True, CreatedAt = now\<rparr>"
  have "InsertOne db oid ?u =
          Inr (ObjectID oid, db\<lparr>users := users db @ [encode_doc (ObjectID oid) ?u]\<rparr>)"
    using assms(3,4,5) by (intro InsertOne_fresh) simp_all
  with register_valid [OF assms(1,2), of db now oid] show ?thesis
    by (simp add: Created_def StatusCreated_def H_def id_json_def encode_doc_def
          new_account_def)
qed

lemma register_unchanged_or_created:
  "fst (fst (register L db salt now oid body)) = 201 \<or>
   snd (register L db salt now oid body) = db"
  by (auto simp: register_def Let_def StatusCreated_def StatusBadRequest_def
        StatusInternalServerError_def StatusConflict_def
        split: sum.splits option.splits prod.splits)

lemma register_invariant:
  assumes "store_invariant db"
  shows "store_invariant (snd (register L db salt now oid body))"
proof (cases "bind_register L body")
  case (Inl e)
  with assms show ?thesis by (simp add: register_def)
next
  case (Inr r)
  obtain email password name where r: "r = (email, password, name)" by (cases r) auto
  show ?thesis
  proof (cases "GenerateFromPassword L salt password")
    case None
    with Inr r assms show ?thesis by (simp add: register_def)
  next
    case (Some hashed)
    let ?u = "\<lparr>ID = [], Email = email, Password = hashed, Role = ''customer'',
               Name = name, Active = True, CreatedAt = now\<rparr>"
    show ?thesis
    proof (cases "InsertOne db oid ?u")
      case (Inl e)
      with Inr r Some assms show ?thesis by (simp add: register_def Let_def)
    next
      case (Inr p)
      obtain i db' where p: "p = (i, db')" by (cases p) auto
      from InsertOne_invariant [OF assms] Inr p have "store_invariant db'" by simp
      with \<open>bind_register L body = Inr r\<close> r Some Inr p show ?thesis
        by (simp add: register_def Let_def)
    qed
  qed
qed

lemma createIndexes_invariant:
  "available db \<Longrightarrow> distinct (map doc_email (users db)) \<Longrightarrow> store_invariant (createIndexes db)"
  by (simp add: createIndexes_def store_invariant_def)

text \<open>
  C6. The claim: no two accounts share an email; \<open>register\<close> with an email already
  present fails with 409 and leaves the store unchanged; \<open>register\<close> with a fresh valid
  email succeeds with 201 and inserts exactly one account. The last two sentences fail
  for a valid request whose password the hasher refuses, which bcrypt does beyond 72
  bytes: the handler answers 500 and inserts nothing. What holds, on a store with the
  unique index and no two accounts of one email, for a request that passes validation:
  when the hasher refuses the password, the answer is 500 and the store is as it was;
  when it accepts it, a registration with an email already present answers 409 and
  leaves the store as it was, and a registration with a fresh email on a store that
  answers, with a fresh generated id, answers 201 and appends exactly one account, with
  that email, the hash, the name and the role customer; the invariant holds afterwards
  in every case. Whatever the request, a registration that does not answer 201 leaves
  the store unchanged, and \<open>createIndexes\<close> establishes the invariant on a store
  without duplicates.
\<close>

theorem register_keeps_emails_unique:
  assumes "store_invariant db"
    and "bind_register L body = Inr (email, password, name)"
  shows "(GenerateFromPassword L salt password = None \<longrightarrow>
            register L db salt now oid body = (HashFailure, db)) \<and>
         (\<forall>hashed. GenerateFromPassword L salt password = Some hashed \<longrightarrow>
            (email \<in> set (map doc_email (users db)) \<longrightarrow>
               register L db salt now oid body = (Conflict, db)) \<and>
            (email \<notin> set (map doc_email (users db)) \<and> available db \<and>
             ObjectID oid \<notin> set (map doc_id (users db)) \<longrightarrow>
               register L db salt now oid body =
                 (Created oid,
                  db\<lparr>users := users db @ [new_account oid email hashed name now]\<rparr>))) \<and>
         store_invariant (snd (register L db salt now oid body)) \<and>
         (\<forall>L' db' salt' now' oid' body'.
            fst (fst (register L' db' salt' now' oid' body')) \<noteq> 201 \<longrightarrow>
            snd (register L' db' salt' now' oid' body') = db') \<and>
         (\<forall>db'. available db' \<and> distinct (map doc_email (users db')) \<longrightarrow>
            store_invariant (createIndexes db'))"
proof (intro conjI impI allI)
  assume "GenerateFromPassword L salt password = None"
  then show "register L db salt now oid body = (HashFailure, db)"
    by (rule register_hash_refused [OF assms(2)])
next
  fix hashed
  assume "GenerateFromPassword L salt password = Some hashed"
    and "email \<in> set (map doc_email (users db))"
  then show "register L db salt now oid body = (Conflict, db)"
    by (rule register_duplicate [OF assms])
next
  fix hashed
  assume "GenerateFromPassword L salt password = Some hashed"
    and "email \<notin> set (map doc_email (users db)) \<and> available db \<and>
         ObjectID oid \<notin> set (map doc_id (users db))"
  then show "register L db salt now oid body =
               (Created oid, db\<lparr>users := users db @ [new_account oid email hashed name now]\<rparr>)"
    by (intro register_fresh [OF assms(2)]) simp_all
next
  show "store_invariant (snd (register L db salt now oid body))"
    by (rule register_invariant [OF assms(1)])
next
  fix L' db' salt' now' oid' body'
  assume "fst (fst (register L' db' salt' now' oid' body')) \<noteq> 201"
  with register_unchanged_or_created [of L' db' salt' now' oid' body']
  show "snd (register L' db' salt' now' oid' body') = db'" by blast
next
  fix db' :: database
  assume "available db' \<and> distinct (map doc_email (users db'))"
  then show "store_invariant (createIndexes db')" by (simp add: createIndexes_invariant)
qed

text \<open>
  An instance: Ann registers a@x.com on the empty store and gets 201; Bob registers the
  same email and gets 409, the store unchanged.
\<close>

lemma empty_db_invariant: "store_invariant empty_db"
  by (simp add: store_invariant_def empty_db_def)

lemma bind_register_body:
  assumes "email \<noteq> []" "is_email L email" "8 \<le> rune_count password" "name \<noteq> []"
  shows "bind_register L (register_body email password name) = Inr (email, password, name)"
proof -
  from assms(3) have "password \<noteq> []" by (auto simp: rune_count_def)
  with assms show ?thesis
    by (simp add: bind_register_def register_body_def body_object_def unmarshal_error_def
          unmarshal_string_def set_string_def ascii_lower_names
          validate_email_def validate_password_def validate_name_def)
qed

lemma bind_register_body_valid:
  assumes "bind_register L (register_body email password name) = Inr (email, password, name)"
  shows "email \<noteq> [] \<and> is_email L email \<and> 8 \<le> rune_count password"
  using assms
  by (auto simp: bind_register_def register_body_def body_object_def unmarshal_error_def
        unmarshal_string_def set_string_def ascii_lower_names
        validate_email_def validate_password_def validate_name_def
        split: if_splits list.splits)

lemma demo_register_valid:
  "bind_register (ref_libs t) (register_body ''a@x.com'' ''secret123'' ''Ann'')
     = Inr (''a@x.com'', ''secret123'', ''Ann'')"
  "bind_register (ref_libs t) (register_body ''a@x.com'' ''other1234'' ''Bob'')
     = Inr (''a@x.com'', ''other1234'', ''Bob'')"
proof -
  have "8 \<le> rune_count ''secret123''" "8 \<le> rune_count ''other1234''" by code_simp+
  then show
    "bind_register (ref_libs t) (register_body ''a@x.com'' ''secret123'' ''Ann'')
       = Inr (''a@x.com'', ''secret123'', ''Ann'')"
    "bind_register (ref_libs t) (register_body ''a@x.com'' ''other1234'' ''Bob'')
       = Inr (''a@x.com'', ''other1234'', ''Bob'')"
    by (simp_all add: bind_register_body ref_libs_def)
qed

lemma demo_hash:
  "GenerateFromPassword (ref_libs t) ''salt'' ''secret123'' = Some ''salt$secret123''"
  "GenerateFromPassword (ref_libs t) ''pepper'' ''other1234'' = Some ''pepper$other1234''"
  by (simp_all add: ref_libs_def ref_Generate_def)

lemma ann_registered_invariant: "store_invariant ann_registered"
  by (simp add: store_invariant_def ann_registered_def)

theorem register_keeps_emails_unique_witness:
  "store_invariant empty_db \<and>
   bind_register (ref_libs []) (register_body ''a@x.com'' ''secret123'' ''Ann'')
     = Inr (''a@x.com'', ''secret123'', ''Ann'') \<and>
   GenerateFromPassword (ref_libs []) ''salt'' ''secret123'' = Some ''salt$secret123'' \<and>
   register (ref_libs []) empty_db ''salt'' (1700000000 * Second)
       ''65a1f00d9b3e4c2a8d7f0001'' (register_body ''a@x.com'' ''secret123'' ''Ann'')
     = (Created ''65a1f00d9b3e4c2a8d7f0001'', ann_registered) \<and>
   register (ref_libs []) ann_registered ''pepper'' (1700000001 * Second)
       ''65a1f00d9b3e4c2a8d7f0002'' (register_body ''a@x.com'' ''other1234'' ''Bob'')
     = (Conflict, ann_registered)"
proof -
  note first = register_keeps_emails_unique
      [OF empty_db_invariant demo_register_valid(1) [of "[]"],
       where salt = "''salt''" and now = "1700000000 * Second"
         and oid = "''65a1f00d9b3e4c2a8d7f0001''"]
  note second = register_keeps_emails_unique
      [OF ann_registered_invariant demo_register_valid(2) [of "[]"],
       where salt = "''pepper''" and now = "1700000001 * Second"
         and oid = "''65a1f00d9b3e4c2a8d7f0002''"]
  have fresh: "''a@x.com'' \<notin> set (map doc_email (users empty_db)) \<and> available empty_db \<and>
               ObjectID ''65a1f00d9b3e4c2a8d7f0001'' \<notin> set (map doc_id (users empty_db))"
    by (simp add: empty_db_def)
  have upd: "empty_db\<lparr>users := users empty_db @
               [new_account ''65a1f00d9b3e4c2a8d7f0001'' ''a@x.com'' ''salt$secret123'' ''Ann''
                  (1700000000 * Second)]\<rparr> = ann_registered"
    by (simp add: empty_db_def ann_registered_def)
  have dup: "''a@x.com'' \<in> set (map doc_email (users ann_registered))"
    by (simp add: ann_registered_def new_account_def)
  from first demo_hash(1) [of "[]"] fresh upd have a:
    "register (ref_libs []) empty_db ''salt'' (1700000000 * Second)
       ''65a1f00d9b3e4c2a8d7f0001'' (register_body ''a@x.com'' ''secret123'' ''Ann'')
     = (Created ''65a1f00d9b3e4c2a8d7f0001'', ann_registered)"
    by simp
  from second demo_hash(2) [of "[]"] dup have b:
    "register (ref_libs []) ann_registered ''pepper'' (1700000001 * Second)
       ''65a1f00d9b3e4c2a8d7f0002'' (register_body ''a@x.com'' ''other1234'' ''Bob'')
     = (Conflict, ann_registered)"
    by blast
  show ?thesis
    using a b empty_db_invariant demo_register_valid(1) [of "[]"] demo_hash(1) [of "[]"]
    by blast
qed

text \<open>
  Where the claim fails: on the empty store, a request with a fresh email and a password
  of 73 bytes passes validation, and the answer is 500, not 201; nothing is inserted.
\<close>

theorem register_long_password_counterexample:
  "store_invariant empty_db \<and>
   length long_password = 73 \<and>
   bind_register (ref_libs []) (register_body ''a@x.com'' long_password ''Ann'')
     = Inr (''a@x.com'', long_password, ''Ann'') \<and>
   ''a@x.com'' \<notin> set (map doc_email (users empty_db)) \<and>
   register (ref_libs []) empty_db ''salt'' (1700000000 * Second)
       ''65a1f00d9b3e4c2a8d7f0001'' (register_body ''a@x.com'' long_password ''Ann'')
     = ((500, JObj [(''error'', JStr ''Failed to hash password'')]), empty_db)"
  by code_simp

subsection \<open>Registration, then login\<close>

lemma find_last:
  "\<forall>y \<in> set xs. \<not> P y \<Longrightarrow> P x \<Longrightarrow> find P (xs @ [x]) = Some x"
  by (induction xs) auto

text \<open>
  C9. The claim: for every valid email, password and name with the email not yet
  registered, \<open>register\<close> followed by \<open>login\<close> with the same email and password
  succeeds, and the \<open>sub\<close> of the access token is the id of the new account. It fails
  for a valid password that the hasher refuses, which bcrypt does beyond 72 bytes: the
  registration answers 500 and the login 401. What holds, for every email, password and
  name that pass the validation of \<open>register\<close>, with the email not yet in the store and
  a password that the hasher accepts: \<open>register\<close> answers 201 with the id of the new
  account, and a login with the same email and password on the store it leaves answers
  200 with a body whose \<open>access_token\<close> the verifier accepts before its expiry and
  whose \<open>sub\<close> is that id. The store answers and the generated id is fresh; the hasher
  recognises its own hash; the codecs give the token's segments back.
\<close>

theorem register_then_login:
  assumes valid: "bind_register L (register_body email password name) = Inr (email, password, name)"
    and up: "available db"
    and fresh: "email \<notin> set (map doc_email (users db))"
    and oid: "ObjectID oid \<notin> set (map doc_id (users db))"
    and hash: "GenerateFromPassword L salt password = Some hashed"
    and cmp: "CompareHashAndPassword L hashed password"
    and rt: "token_roundtrip L jwtSecret
               (NewWithClaims SigningMethodHS256
                  (MapClaims oid email ''customer'' (Unix (Add t1 (15 * Minute))) (Unix t3)))"
    and live: "t < time_of_seconds (Unix (Add t1 (15 * Minute)))"
  shows "\<exists>db' access refresh expires tok.
           register L db salt now oid (register_body email password name)
             = ((201, JObj [(''message'', JStr ''User registered successfully''),
                            (''user_id'', JStr oid)]), db') \<and>
           login L db' jwtSecret (t1, t2, t3, t4) (login_body email password)
             = (200, JObj [(''access_token'', JStr access), (''refresh_token'', JStr refresh),
                           (''expires_in'', JNum expires)]) \<and>
           Parse L (keyFunc jwtSecret) t access = Inr tok \<and>
           index_map (Claims tok) ''sub'' = JStr oid"
proof -
  let ?d = "new_account oid email hashed name now"
  let ?db' = "db\<lparr>users := users db @ [?d]\<rparr>"
  let ?tokens = "generateTokens L jwtSecret (t1, t2, t3, t4) oid email ''customer''"
  let ?tok = "NewWithClaims SigningMethodHS256
                (MapClaims oid email ''customer'' (Unix (Add t1 (15 * Minute))) (Unix t3))"
  have reg: "register L db salt now oid (register_body email password name)
               = ((201, JObj [(''message'', JStr ''User registered successfully''),
                              (''user_id'', JStr oid)]), ?db')"
    using register_fresh [OF valid hash fresh up oid, of now] by (simp add: Created_def)
  from bind_register_body_valid [OF valid]
  have bl: "bind_login L (login_body email password) = Inr (email, password)"
    by (intro bind_login_body) auto
  have "find (matches (Filter_email email)) (users db @ [?d]) = Some ?d"
    using fresh by (intro find_last) (auto simp: new_account_def)
  then have fo: "FindOne ?db' (Filter_email email) = Inr ?d"
    using up by (simp add: FindOne_def)
  have dec: "ID (Decode ?d) = oid" "Email (Decode ?d) = email" "Role (Decode ?d) = ''customer''"
    "Password (Decode ?d) = hashed"
    by (simp_all add: Decode_def new_account_def)
  have lg: "login L ?db' jwtSecret (t1, t2, t3, t4) (login_body email password)
              = (200, JObj [(''access_token'', JStr (fst ?tokens)),
                            (''refresh_token'', JStr (fst (snd ?tokens))),
                            (''expires_in'', JNum (snd (snd ?tokens)))])"
    using bl fo cmp dec
    by (simp add: login_def Let_def TokenResponse_def StatusOK_def split_beta)
  have pr: "Parse L (keyFunc jwtSecret) t (fst ?tokens) = Inr ?tok"
    by (rule generateTokens_verifies [OF rt live])
  have sub: "index_map (Claims ?tok) ''sub'' = JStr oid"
    by (simp add: NewWithClaims_def MapClaims_def index_map_def to_map_def)
  show ?thesis using reg lg pr sub by blast
qed

text \<open>
  An instance: Ann registers on the empty store and logs in; the access token of the
  response is verified one minute later.
\<close>

lemma login_roundtrip:
  "token_roundtrip (ref_libs login_table) ''k''
     (NewWithClaims SigningMethodHS256
        (MapClaims ''65a1f00d9b3e4c2a8d7f0001'' ''a@x.com'' ''customer''
           (Unix (Add (1700000000 * Second + 100) (15 * Minute)))
           (Unix (1700000000 * Second + 300))))"
  by code_simp

lemma demo_compare: "CompareHashAndPassword (ref_libs t) ''salt$secret123'' ''secret123''"
  by (simp add: ref_libs_def ref_Compare_def)

lemma ann_registers:
  "register (ref_libs login_table) empty_db ''salt'' (1700000000 * Second)
       ''65a1f00d9b3e4c2a8d7f0001'' (register_body ''a@x.com'' ''secret123'' ''Ann'')
     = ((201, JObj [(''message'', JStr ''User registered successfully''),
                    (''user_id'', JStr ''65a1f00d9b3e4c2a8d7f0001'')]), ann_registered)"
  by code_simp

lemma ann_logs_in:
  "login (ref_libs login_table) ann_registered ''k''
       (1700000000 * Second + 100, 1700000000 * Second + 200,
        1700000000 * Second + 300, 1700000000 * Second + 400)
       (login_body ''a@x.com'' ''secret123'')
     = (200, JObj [(''access_token'', JStr ''68.61.5348413235363a6b3a36382e3631''),
                   (''refresh_token'', JStr ''68.72.5348413235363a6b3a36382e3732''),
                   (''expires_in'', JNum 1700000900)])"
  by code_simp

theorem register_then_login_witness:
  "bind_register (ref_libs login_table) (register_body ''a@x.com'' ''secret123'' ''Ann'')
     = Inr (''a@x.com'', ''secret123'', ''Ann'') \<and>
   GenerateFromPassword (ref_libs login_table) ''salt'' ''secret123'' = Some ''salt$secret123'' \<and>
   CompareHashAndPassword (ref_libs login_table) ''salt$secret123'' ''secret123'' \<and>
   register (ref_libs login_table) empty_db ''salt'' (1700000000 * Second)
       ''65a1f00d9b3e4c2a8d7f0001'' (register_body ''a@x.com'' ''secret123'' ''Ann'')
     = ((201, JObj [(''message'', JStr ''User registered successfully''),
                    (''user_id'', JStr ''65a1f00d9b3e4c2a8d7f0001'')]), ann_registered) \<and>
   login (ref_libs login_table) ann_registered ''k''
       (1700000000 * Second + 100, 1700000000 * Second + 200,
        1700000000 * Second + 300, 1700000000 * Second + 400)
       (login_body ''a@x.com'' ''secret123'')
     = (200, JObj [(''access_token'', JStr ''68.61.5348413235363a6b3a36382e3631''),
                   (''refresh_token'', JStr ''68.72.5348413235363a6b3a36382e3732''),
                   (''expires_in'', JNum 1700000900)]) \<and>
   (\<exists>tok. Parse (ref_libs login_table) (keyFunc ''k'') (1700000060 * Second)
             ''68.61.5348413235363a6b3a36382e3631'' = Inr tok \<and>
          index_map (Claims tok) ''sub'' = JStr ''65a1f00d9b3e4c2a8d7f0001'')"
proof -
  have up: "available empty_db" by (simp add: empty_db_def)
  have fresh: "''a@x.com'' \<notin> set (map doc_email (users empty_db))" by (simp add: empty_db_def)
  have oid: "ObjectID ''65a1f00d9b3e4c2a8d7f0001'' \<notin> set (map doc_id (users empty_db))"
    by (simp add: empty_db_def)
  from register_then_login
         [OF demo_register_valid(1) [of login_table] up fresh oid
             demo_hash(1) [of login_table] demo_compare [of login_table] login_roundtrip
             demo_live,
          where now = "1700000000 * Second" and ?t2.0 = "1700000000 * Second + 200"
            and ?t4.0 = "1700000000 * Second + 400"]
  obtain db' access refresh expires tok where
    r: "register (ref_libs login_table) empty_db ''salt'' (1700000000 * Second)
          ''65a1f00d9b3e4c2a8d7f0001'' (register_body ''a@x.com'' ''secret123'' ''Ann'')
        = ((201, JObj [(''message'', JStr ''User registered successfully''),
                       (''user_id'', JStr ''65a1f00d9b3e4c2a8d7f0001'')]), db')"
    and l: "login (ref_libs login_table) db' ''k''
          (1700000000 * Second + 100, 1700000000 * Second + 200,
           1700000000 * Second + 300, 1700000000 * Second + 400)
          (login_body ''a@x.com'' ''secret123'')
        = (200, JObj [(''access_token'', JStr access), (''refresh_token'', JStr refresh),
                      (''expires_in'', JNum expires)])"
    and p: "Parse (ref_libs login_table) (keyFunc ''k'') (1700000060 * Second) access = Inr tok"
    and s: "index_map (Claims tok) ''sub'' = JStr ''65a1f00d9b3e4c2a8d7f0001''"
    by blast
  from r ann_registers have "db' = ann_registered" by simp
  with l ann_logs_in have "access = ''68.61.5348413235363a6b3a36382e3631''" by simp
  with p s have "\<exists>tok. Parse (ref_libs login_table) (keyFunc ''k'') (1700000060 * Second)
                         ''68.61.5348413235363a6b3a36382e3631'' = Inr tok \<and>
                      index_map (Claims tok) ''sub'' = JStr ''65a1f00d9b3e4c2a8d7f0001''"
    by blast
  then show ?thesis
    using ann_registers ann_logs_in demo_register_valid(1) [of login_table]
          demo_hash(1) [of login_table] demo_compare [of login_table]
    by blast
qed

text \<open>
  Where the claim fails: the email is fresh and the three fields pass validation, the
  password has 73 bytes; the registration answers 500 and leaves the store empty, and
  the login with the same email and password answers 401.
\<close>

theorem register_then_login_long_password_counterexample:
  "bind_register (ref_libs login_table) (register_body ''b@x.com'' long_password ''Bob'')
     = Inr (''b@x.com'', long_password, ''Bob'') \<and>
   ''b@x.com'' \<notin> set (map doc_email (users empty_db)) \<and>
   register (ref_libs login_table) empty_db ''salt'' (1700000000 * Second)
       ''65a1f00d9b3e4c2a8d7f0001'' (register_body ''b@x.com'' long_password ''Bob'')
     = ((500, JObj [(''error'', JStr ''Failed to hash password'')]), empty_db) \<and>
   login (ref_libs login_table) empty_db ''k'' demo_clock (login_body ''b@x.com'' long_password)
     = (401, JObj [(''error'', JStr ''Invalid credentials'')])"
  by code_simp

end
